theory Spec2Isabelle
  imports Complex_Main "HOL-Library.Log_Nat" "HOL-Library.Sublist"
begin

section \<open>Python numbers\<close>

text \<open>
  A Python \<open>float\<close> is an IEEE-754 binary64 number. A finite float is modelled by the
  rational number it denotes, and every arithmetic operation rounds its exact result to
  the nearest number with a 53-bit significand, ties to even, as the hardware does.
  The exponent is taken as unbounded: overflow to infinity, NaN and subnormal numbers
  (magnitudes above about 1.8e308 or below about 2.2e-308) are outside the model.
\<close>

type_synonym pyfloat = rat

definition rne :: "rat \<Rightarrow> int" where
  \<comment> \<open>round to the nearest integer, a tie to the even neighbour\<close>
  "rne x = (let f = \<lfloor>x\<rfloor>; d = x - of_int f
            in if d < 1 / 2 then f else if 1 / 2 < d then f + 1
               else if even f then f else f + 1)"

definition ilog2 :: "rat \<Rightarrow> int" where
  \<comment> \<open>the integer \<open>k\<close> with \<open>2 powi k \<le> x < 2 powi (k + 1)\<close>, for positive \<open>x\<close>\<close>
  "ilog2 x = (case quotient_of x of (p, q) \<Rightarrow>
      let a = bitlen p - bitlen q in if 2 powi a \<le> x then a else a - 1)"

definition fl :: "rat \<Rightarrow> pyfloat" where
  \<comment> \<open>rounding to binary64: 53 significant bits\<close>
  "fl x = (if x = 0 then 0
           else let e = ilog2 \<bar>x\<bar> - 52 in of_int (rne (x / 2 powi e)) * 2 powi e)"

definition is_double :: "rat \<Rightarrow> bool" where
  "is_double x = (fl x = x)"

definition fmul :: "pyfloat \<Rightarrow> pyfloat \<Rightarrow> pyfloat" where
  "fmul a b = fl (a * b)"

definition fsub :: "pyfloat \<Rightarrow> pyfloat \<Rightarrow> pyfloat" where
  "fsub a b = fl (a - b)"

definition fdiv :: "pyfloat \<Rightarrow> pyfloat \<Rightarrow> pyfloat" where
  \<comment> \<open>only ever used with the non-zero divisor \<open>grid_size\<close>\<close>
  "fdiv a b = fl (a / b)"

definition py_int :: "pyfloat \<Rightarrow> int" where
  \<comment> \<open>\<open>int(x)\<close> truncates toward zero\<close>
  "py_int x = (if 0 \<le> x then \<lfloor>x\<rfloor> else \<lceil>x\<rceil>)"

section \<open>Python strings\<close>

definition lower_char :: "char \<Rightarrow> char" where
  "lower_char c = (let n = (of_char c :: nat)
                   in if 65 \<le> n \<and> n \<le> 90 then char_of (n + 32) else c)"

definition lower :: "string \<Rightarrow> string" where
  \<comment> \<open>\<open>str.lower\<close> on ASCII text\<close>
  "lower s = map lower_char s"

function digits :: "nat \<Rightarrow> string" where
  "digits n = (if n < 10 then [char_of (48 + n)]
               else digits (n div 10) @ [char_of (48 + n mod 10)])"
  by pat_completeness auto
termination
  by (relation "measure id") auto

declare digits.simps [simp del]

definition str_int :: "int \<Rightarrow> string" where
  \<comment> \<open>\<open>str(i)\<close>, as an f-string renders an int\<close>
  "str_int i = (if i < 0 then CHR ''-'' # digits (nat (- i)) else digits (nat i))"

section \<open>layout\_generator.py\<close>

datatype py_error = NameError string | ValueError | TypeError

record requirement =
  req_type :: string
  priority :: int
  min_area :: pyfloat

record dims =
  dim_length :: pyfloat
  dim_width :: pyfloat

record furniture_item =
  item_type :: string
  price :: int
  item_style :: string
  dimensions :: dims

record layout_option =
  layout_id :: int
  furniture :: "furniture_item list"
  cost :: int
  description :: string
  features :: "string list"

subsection \<open>get\_furniture\_requirements\<close>

definition requirements :: "(string \<times> requirement list) list" where
  "requirements =
    [(''Living Room'',
        [\<lparr>req_type = ''sofa'', priority = 1, min_area = fl 2\<rparr>,
         \<lparr>req_type = ''coffee_table'', priority = 2, min_area = fl (6 / 10)\<rparr>,
         \<lparr>req_type = ''tv_stand'', priority = 2, min_area = fl 1\<rparr>,
         \<lparr>req_type = ''armchair'', priority = 3, min_area = fl (8 / 10)\<rparr>]),
     (''Bedroom'',
        [\<lparr>req_type = ''bed'', priority = 1, min_area = fl (35 / 10)\<rparr>,
         \<lparr>req_type = ''wardrobe'', priority = 1, min_area = fl (12 / 10)\<rparr>,
         \<lparr>req_type = ''nightstand'', priority = 2, min_area = fl (2 / 10)\<rparr>]),
     (''Home Office'',
        [\<lparr>req_type = ''desk'', priority = 1, min_area = fl (12 / 10)\<rparr>,
         \<lparr>req_type = ''office_chair'', priority = 1, min_area = fl (4 / 10)\<rparr>,
         \<lparr>req_type = ''bookshelf'', priority = 2, min_area = fl (8 / 10)\<rparr>]),
     (''Dining Room'',
        [\<lparr>req_type = ''dining_table'', priority = 1, min_area = fl 2\<rparr>,
         \<lparr>req_type = ''chairs'', priority = 1, min_area = fl (4 / 10)\<rparr>,
         \<lparr>req_type = ''sideboard'', priority = 2, min_area = fl 1\<rparr>]),
     (''Kitchen'',
        [\<lparr>req_type = ''counter'', priority = 1, min_area = fl 2\<rparr>,
         \<lparr>req_type = ''storage'', priority = 1, min_area = fl (15 / 10)\<rparr>,
         \<lparr>req_type = ''dining_set'', priority = 2, min_area = fl (12 / 10)\<rparr>])]"

definition get_furniture_requirements :: "string \<Rightarrow> requirement list" where
  \<comment> \<open>\<open>requirements.get(room_type, [])\<close>\<close>
  "get_furniture_requirements room_type =
     (case map_of requirements room_type of Some reqs \<Rightarrow> reqs | None \<Rightarrow> [])"

subsection \<open>get\_furniture\_dimensions\<close>

definition dimensions_table :: "(string \<times> dims) list" where
  "dimensions_table =
    [(''sofa'', \<lparr>dim_length = fl 2, dim_width = fl (9 / 10)\<rparr>),
     (''coffee_table'', \<lparr>dim_length = fl (9 / 10), dim_width = fl (6 / 10)\<rparr>),
     (''tv_stand'', \<lparr>dim_length = fl (15 / 10), dim_width = fl (5 / 10)\<rparr>),
     (''armchair'', \<lparr>dim_length = fl (8 / 10), dim_width = fl (8 / 10)\<rparr>),
     (''bed'', \<lparr>dim_length = fl 2, dim_width = fl (16 / 10)\<rparr>),
     (''wardrobe'', \<lparr>dim_length = fl (12 / 10), dim_width = fl (6 / 10)\<rparr>),
     (''nightstand'', \<lparr>dim_length = fl (4 / 10), dim_width = fl (4 / 10)\<rparr>),
     (''desk'', \<lparr>dim_length = fl (12 / 10), dim_width = fl (6 / 10)\<rparr>),
     (''office_chair'', \<lparr>dim_length = fl (6 / 10), dim_width = fl (6 / 10)\<rparr>),
     (''bookshelf'', \<lparr>dim_length = fl (8 / 10), dim_width = fl (3 / 10)\<rparr>),
     (''dining_table'', \<lparr>dim_length = fl (16 / 10), dim_width = fl (9 / 10)\<rparr>),
     (''chairs'', \<lparr>dim_length = fl (5 / 10), dim_width = fl (5 / 10)\<rparr>),
     (''sideboard'', \<lparr>dim_length = fl (12 / 10), dim_width = fl (4 / 10)\<rparr>),
     (''counter'', \<lparr>dim_length = fl 2, dim_width = fl (6 / 10)\<rparr>),
     (''storage'', \<lparr>dim_length = fl 1, dim_width = fl (6 / 10)\<rparr>),
     (''dining_set'', \<lparr>dim_length = fl (12 / 10), dim_width = fl (12 / 10)\<rparr>)]"

definition get_furniture_dimensions :: "string \<Rightarrow> dims" where
  \<comment> \<open>\<open>dimensions.get(furniture_type, {"length": 1.0, "width": 1.0})\<close>\<close>
  "get_furniture_dimensions furniture_type =
     (case map_of dimensions_table furniture_type of
        Some d \<Rightarrow> d
      | None \<Rightarrow> \<lparr>dim_length = fl 1, dim_width = fl 1\<rparr>)"

subsection \<open>generate\_furniture\_item\<close>

definition style_multipliers :: "(string \<times> pyfloat) list" where
  "style_multipliers =
    [(''Modern'', fl (12 / 10)),
     (''Traditional'', fl (11 / 10)),
     (''Minimalist'', fl 1),
     (''Scandinavian'', fl (13 / 10)),
     (''Industrial'', fl (115 / 100))]"

definition base_prices :: "(string \<times> int) list" where
  "base_prices =
    [(''sofa'', 1000), (''coffee_table'', 200), (''tv_stand'', 300), (''armchair'', 400),
     (''bed'', 800), (''wardrobe'', 600), (''nightstand'', 100), (''desk'', 400),
     (''office_chair'', 200), (''bookshelf'', 300), (''dining_table'', 600),
     (''chairs'', 150), (''sideboard'', 400), (''counter'', 800), (''storage'', 500),
     (''dining_set'', 700)]"

definition generate_furniture_item :: "requirement \<Rightarrow> string \<Rightarrow> furniture_item" where
  "generate_furniture_item requirement style =
     (let multiplier = (case map_of style_multipliers style of Some m \<Rightarrow> m | None \<Rightarrow> fl 1);
          base_price = (case map_of base_prices (req_type requirement) of
                          Some b \<Rightarrow> b | None \<Rightarrow> 300)
      in \<lparr>item_type = req_type requirement,
          price = py_int (fmul (of_int base_price) multiplier),
          item_style = style,
          dimensions = get_furniture_dimensions (req_type requirement)\<rparr>)"

subsection \<open>generate\_layout\_description and generate\_layout\_features\<close>

definition descriptions :: "(string \<times> string) list" where
  "descriptions =
    [(''Modern'', ''Clean lines and contemporary pieces create a sophisticated space''),
     (''Traditional'', ''Classic furniture arrangement for timeless appeal''),
     (''Minimalist'', ''Essential pieces arranged for maximum functionality''),
     (''Scandinavian'', ''Light and airy layout with functional Nordic design''),
     (''Industrial'', ''Raw and refined elements combine for an urban feel'')]"

definition generate_layout_description :: "layout_option \<Rightarrow> string \<Rightarrow> string \<Rightarrow> string" where
  "generate_layout_description layout style room_type =
     (let furniture_count = int (length (furniture layout));
          total_cost = cost layout;
          base_description = (case map_of descriptions style of
                                Some d \<Rightarrow> d | None \<Rightarrow> ''Balanced and functional layout'')
      in base_description @ '' in this '' @ lower room_type @ ''. '' @
         ''Featuring '' @ str_int furniture_count @ '' carefully selected pieces '' @
         ''with an estimated total cost of $'' @ str_int total_cost @ ''.'')"

definition style_features :: "(string \<times> string list) list" where
  "style_features =
    [(''Modern'', [''Contemporary materials'', ''Minimal ornamentation'', ''Bold geometric shapes'']),
     (''Traditional'', [''Classic patterns'', ''Symmetrical arrangement'', ''Rich textures'']),
     (''Minimalist'', [''Clean spaces'', ''Functional design'', ''Neutral colors'']),
     (''Scandinavian'', [''Light woods'', ''Natural materials'', ''Bright spaces'']),
     (''Industrial'', [''Raw materials'', ''Open layout'', ''Metallic accents''])]"

definition generate_layout_features :: "layout_option \<Rightarrow> string \<Rightarrow> string list" where
  "generate_layout_features layout style =
     (let features0 = (case map_of style_features style of
                         Some fs \<Rightarrow> fs | None \<Rightarrow> [''Balanced design'', ''Functional layout'']);
          furniture_types = map item_type (furniture layout);
          features1 = (if 3 \<le> length furniture_types
                       then features0 @ [''Complete room setup''] else features0)
      in if cost layout < 2000 then features1 @ [''Budget-friendly selection'']
         else if 5000 < cost layout then features1 @ [''Premium quality pieces'']
         else features1)"

subsection \<open>generate\_room\_layout\<close>

definition add_required :: "string \<Rightarrow> requirement \<Rightarrow> layout_option \<times> pyfloat \<Rightarrow> layout_option \<times> pyfloat" where
  \<comment> \<open>one pass of the inner loop over \<open>furniture_requirements\<close>\<close>
  "add_required style item st =
     (case st of (layout, available_area) \<Rightarrow>
        if min_area item \<le> available_area
        then let furniture_item = generate_furniture_item item style
             in (layout\<lparr>furniture := furniture layout @ [furniture_item],
                         cost := cost layout + price furniture_item\<rparr>,
                 fsub available_area (min_area item))
        else (layout, available_area))"

definition build_layout :: "int \<Rightarrow> pyfloat \<Rightarrow> string \<Rightarrow> string \<Rightarrow> requirement list \<Rightarrow> layout_option" where
  \<comment> \<open>the body of the outer loop, for loop index \<open>i\<close>\<close>
  "build_layout i area room_type style furniture_requirements =
     (let layout0 = \<lparr>layout_id = i + 1, furniture = [], cost = 0,
                     description = [], features = []\<rparr>;
          available_area = fmul area (fl (7 / 10));
          layout1 = fst (fold (add_required style) furniture_requirements
                           (layout0, available_area));
          layout2 = layout1\<lparr>description :=
                              generate_layout_description layout1 style room_type\<rparr>
      in layout2\<lparr>features := generate_layout_features layout2 style\<rparr>)"

definition generate_room_layout :: "pyfloat \<Rightarrow> string \<Rightarrow> string \<Rightarrow> requirement list \<Rightarrow> layout_option list" where
  "generate_room_layout area room_type style furniture_requirements =
     map (\<lambda>i. build_layout i area room_type style furniture_requirements) [0, 1, 2]"

subsection \<open>filter\_by\_budget\<close>

definition filter_by_budget :: "layout_option list \<Rightarrow> rat \<times> rat \<Rightarrow> layout_option list" where
  "filter_by_budget layouts budget =
     (case budget of (min_budget, max_budget) \<Rightarrow>
        [layout \<leftarrow> layouts.
           min_budget \<le> of_int (cost layout) \<and> of_int (cost layout) \<le> max_budget])"

subsection \<open>generate\_layout\_suggestions\<close>

record recommendation =
  rec_description :: string
  rec_cost :: int
  rec_features :: "string list"

record suggestions =
  layout_options :: "layout_option list"
  recommendations :: "recommendation list"

definition generate_recommendations ::
  "(layout_option list \<Rightarrow> string \<Rightarrow> 'f \<Rightarrow> recommendation list) option" where
  \<comment> \<open>The name \<open>generate_recommendations\<close> has no binding: \<open>layout_generator.py\<close> neither
      defines nor imports it, no other file of the repository defines it, and it is not a
      Python builtin.\<close>
  "generate_recommendations = None"

definition generate_layout_suggestions ::
  "pyfloat \<Rightarrow> pyfloat \<Rightarrow> pyfloat \<Rightarrow> string \<Rightarrow> string \<Rightarrow> rat \<times> rat \<Rightarrow> 'f
     \<Rightarrow> py_error + suggestions" where
  \<comment> \<open>looking up an unbound global name raises \<open>NameError\<close>\<close>
  "generate_layout_suggestions length_r width_r height_r room_type style budget features_in =
     (let area = fmul length_r width_r;
          furniture_requirements = get_furniture_requirements room_type;
          options = generate_room_layout area room_type style furniture_requirements;
          filtered_suggestions = filter_by_budget options budget
      in case generate_recommendations of
           None \<Rightarrow> Inl (NameError ''generate_recommendations'')
         | Some f \<Rightarrow>
             Inr \<lparr>layout_options = filtered_suggestions,
                  recommendations = f filtered_suggestions style features_in\<rparr>)"

section \<open>visualization.py: the placement engine\<close>

subsection \<open>The occupancy grid\<close>

text \<open>
  The occupancy grid is a two-dimensional numpy array that only ever holds 0 and 1:
  its shape (rows, columns) and its rows of cells, \<open>True\<close> for 1. A basic slice
  \<open>a[start:stop]\<close> of an axis of size \<open>n\<close> follows Python's rule: a negative bound
  counts from the end, and each bound is clamped into \<open>0..n\<close>.
\<close>

record occupancy_grid =
  shape :: "nat \<times> nat"
  cells :: "bool list list"

definition np_zeros :: "nat \<times> nat \<Rightarrow> occupancy_grid" where
  "np_zeros sh = \<lparr>shape = sh, cells = replicate (fst sh) (replicate (snd sh) False)\<rparr>"

definition slice_bound :: "nat \<Rightarrow> int \<Rightarrow> nat" where
  "slice_bound n i = (if i < 0 then nat (max 0 (i + int n)) else min (nat i) n)"

definition slice_indices :: "nat \<Rightarrow> int \<Rightarrow> int \<Rightarrow> nat list" where
  "slice_indices n start stop = [slice_bound n start ..< slice_bound n stop]"

definition block :: "nat \<times> nat \<Rightarrow> int \<Rightarrow> int \<Rightarrow> int \<Rightarrow> int \<Rightarrow> (nat \<times> nat) list" where
  \<comment> \<open>the cells (row, column) of \<open>grid[y:y+item_width, x:x+item_length]\<close>\<close>
  "block sh y item_width x item_length =
     List.product (slice_indices (fst sh) y (y + item_width))
                  (slice_indices (snd sh) x (x + item_length))"

definition np_any :: "occupancy_grid \<Rightarrow> (nat \<times> nat) list \<Rightarrow> bool" where
  "np_any g cs = list_ex (\<lambda>(r, c). cells g ! r ! c) cs"

definition assign_one :: "occupancy_grid \<Rightarrow> (nat \<times> nat) list \<Rightarrow> occupancy_grid" where
  \<comment> \<open>\<open>grid[\<dots>] = 1\<close> on the cells \<open>cs\<close> of a slice\<close>
  "assign_one g cs =
     g\<lparr>cells := map (\<lambda>r. map (\<lambda>c. (r, c) \<in> set cs \<or> cells g ! r ! c)
                              [0..<snd (shape g)])
                     [0..<fst (shape g)]\<rparr>"

subsection \<open>find\_furniture\_position\<close>

definition py_range :: "int \<Rightarrow> int list" where
  \<comment> \<open>\<open>range(n)\<close>, empty when \<open>n \<le> 0\<close>\<close>
  "py_range n = [0..n - 1]"

definition scan_positions :: "nat \<times> nat \<Rightarrow> int \<Rightarrow> int \<Rightarrow> (int \<times> int) list" where
  \<comment> \<open>the positions \<open>(x, y)\<close> in the order the two nested loops visit them\<close>
  "scan_positions sh item_length item_width =
     (case sh of (grid_height, grid_width) \<Rightarrow>
        concat (map (\<lambda>y. map (\<lambda>x. (x, y)) (py_range (int grid_width - item_length + 1)))
                    (py_range (int grid_height - item_width + 1))))"

definition find_furniture_position ::
  "occupancy_grid \<Rightarrow> int \<Rightarrow> int \<Rightarrow> pyfloat \<Rightarrow> (int \<times> int) option" where
  \<comment> \<open>the first scanned position whose block holds no 1; \<open>None\<close> when there is none\<close>
  "find_furniture_position g item_length item_width gs =
     find (\<lambda>(x, y). \<not> np_any g (block (shape g) y item_width x item_length))
          (scan_positions (shape g) item_length item_width)"

subsection \<open>position\_furniture\<close>

record positioned_item = furniture_item +
  position :: "pyfloat \<times> pyfloat"

definition grid_size :: pyfloat where
  "grid_size = fl (1 / 2)"

definition footprint :: "furniture_item \<Rightarrow> pyfloat" where
  \<comment> \<open>the sort key \<open>x['dimensions']['length'] * x['dimensions']['width']\<close>\<close>
  "footprint x = fmul (dim_length (dimensions x)) (dim_width (dimensions x))"

definition sorted_reverse :: "('a \<Rightarrow> pyfloat) \<Rightarrow> 'a list \<Rightarrow> 'a list" where
  \<comment> \<open>\<open>sorted(xs, key=key, reverse=True)\<close>: the list is reversed, sorted by a stable
      ascending sort, and reversed again\<close>
  "sorted_reverse key xs = rev (sort_key key (rev xs))"

definition grid_units :: "pyfloat \<Rightarrow> int" where
  \<comment> \<open>\<open>int(d / grid_size)\<close>\<close>
  "grid_units d = py_int (fdiv d grid_size)"

type_synonym placement = "furniture_item \<times> (int \<times> int)"

definition place_item :: "furniture_item \<Rightarrow> occupancy_grid \<times> placement list
    \<Rightarrow> occupancy_grid \<times> placement list" where
  \<comment> \<open>one pass of the loop over \<open>sorted_furniture\<close>; a placed item is recorded with the
      grid position \<open>(x, y)\<close> that was found for it\<close>
  "place_item item st =
     (case st of (grid, placed) \<Rightarrow>
        let item_length = grid_units (dim_length (dimensions item));
            item_width = grid_units (dim_width (dimensions item))
        in case find_furniture_position grid item_length item_width grid_size of
             None \<Rightarrow> (grid, placed)
           | Some (x, y) \<Rightarrow>
               (assign_one grid (block (shape grid) y item_width x item_length),
                placed @ [(item, (x, y))]))"

definition placements :: "furniture_item list \<Rightarrow> pyfloat \<Rightarrow> pyfloat \<Rightarrow> py_error + placement list" where
  \<comment> \<open>\<open>np.zeros\<close> raises \<open>ValueError\<close> on a negative dimension\<close>
  "placements furniture_in room_length room_width =
     (let grid_length = grid_units room_length;
          grid_width = grid_units room_width
      in if grid_width < 0 \<or> grid_length < 0 then Inl ValueError
         else let grid = np_zeros (nat grid_width, nat grid_length);
                  sorted_furniture = sorted_reverse footprint furniture_in
              in Inr (snd (fold place_item sorted_furniture (grid, []))))"

definition positioned :: "placement \<Rightarrow> positioned_item" where
  \<comment> \<open>\<open>item.copy()\<close> with \<open>'position'\<close> set to \<open>(x * grid_size, y * grid_size)\<close>\<close>
  "positioned pl =
     (case pl of (item, (x, y)) \<Rightarrow>
        furniture_item.extend item
          \<lparr>position = (fmul (of_int x) grid_size, fmul (of_int y) grid_size)\<rparr>)"

definition position_furniture ::
  "furniture_item list \<Rightarrow> pyfloat \<Rightarrow> pyfloat \<Rightarrow> py_error + positioned_item list" where
  "position_furniture furniture_in room_length room_width =
     (case placements furniture_in room_length room_width of
        Inl e \<Rightarrow> Inl e
      | Inr pls \<Rightarrow> Inr (map positioned pls))"

definition marked_cells :: "nat \<times> nat \<Rightarrow> placement \<Rightarrow> (nat \<times> nat) list" where
  \<comment> \<open>the cells set to 1 for a placed item, in a grid of shape \<open>sh\<close>\<close>
  "marked_cells sh pl =
     (case pl of (item, (x, y)) \<Rightarrow>
        block sh y (grid_units (dim_width (dimensions item)))
                 x (grid_units (dim_length (dimensions item))))"

definition grid_shape :: "pyfloat \<Rightarrow> pyfloat \<Rightarrow> nat \<times> nat" where
  \<comment> \<open>the shape \<open>(grid_width, grid_length)\<close> of the grid of a room\<close>
  "grid_shape room_length room_width =
     (nat (grid_units room_width), nat (grid_units room_length))"

subsection \<open>position\_furniture on the object store\<close>

text \<open>
  Lists and dicts are mutable objects that Python passes by reference. To say what
  \<open>position_furniture\<close> does to the objects it is given, the same function is written
  once more over an explicit store: an object lives at an address, a list holds the
  addresses of its elements, an item dict holds the address of its nested
  \<open>'dimensions'\<close> dict, and \<open>'position'\<close> is a key an item dict may or may not have.
  Strings, numbers and tuples are immutable and stay values. The occupancy grid is
  a fresh array local to the call and is passed as a value.
\<close>

type_synonym addr = nat

record item_dict =
  d_type :: string
  d_price :: int
  d_style :: string
  d_dimensions :: addr
  d_position :: "(pyfloat \<times> pyfloat) option"

datatype pyobj = Dims dims | Item item_dict | PyList "addr list"

type_synonym store = "pyobj list"

definition lookup :: "store \<Rightarrow> addr \<Rightarrow> pyobj option" where
  "lookup st a = (if a < length st then Some (st ! a) else None)"

definition new_object :: "store \<Rightarrow> pyobj \<Rightarrow> store \<times> addr" where
  "new_object st ob = (st @ [ob], length st)"

definition load_dimensions :: "store \<Rightarrow> addr \<Rightarrow> py_error + dims" where
  \<comment> \<open>\<open>item['dimensions']\<close>, read for its \<open>'length'\<close> and \<open>'width'\<close>\<close>
  "load_dimensions st a =
     (case lookup st a of
        Some (Item it) \<Rightarrow>
          (case lookup st (d_dimensions it) of
             Some (Dims d) \<Rightarrow> Inr d
           | _ \<Rightarrow> Inl TypeError)
      | _ \<Rightarrow> Inl TypeError)"

definition dict_copy :: "store \<Rightarrow> addr \<Rightarrow> py_error + store \<times> addr" where
  \<comment> \<open>\<open>item.copy()\<close>: a new dict with the same keys and values (a shallow copy)\<close>
  "dict_copy st a =
     (case lookup st a of
        Some (Item it) \<Rightarrow> Inr (new_object st (Item it))
      | _ \<Rightarrow> Inl TypeError)"

definition set_position :: "store \<Rightarrow> addr \<Rightarrow> pyfloat \<times> pyfloat \<Rightarrow> py_error + store" where
  \<comment> \<open>\<open>d['position'] = pos\<close> on the dict at address \<open>a\<close>\<close>
  "set_position st a pos =
     (case lookup st a of
        Some (Item it) \<Rightarrow> Inr (st[a := Item (it\<lparr>d_position := Some pos\<rparr>)])
      | _ \<Rightarrow> Inl TypeError)"

definition list_append :: "store \<Rightarrow> addr \<Rightarrow> addr \<Rightarrow> py_error + store" where
  \<comment> \<open>\<open>xs.append(b)\<close> on the list at address \<open>a\<close>\<close>
  "list_append st a b =
     (case lookup st a of
        Some (PyList xs) \<Rightarrow> Inr (st[a := PyList (xs @ [b])])
      | _ \<Rightarrow> Inl TypeError)"

definition key_at :: "store \<Rightarrow> addr \<Rightarrow> pyfloat" where
  "key_at st a =
     (case load_dimensions st a of
        Inr d \<Rightarrow> fmul (dim_length d) (dim_width d)
      | Inl e \<Rightarrow> 0)"

definition add_positioned :: "store \<Rightarrow> addr \<Rightarrow> addr \<Rightarrow> pyfloat \<times> pyfloat \<Rightarrow> py_error + store" where
  \<comment> \<open>the three statements that add a positioned item: \<open>positioned_item = item.copy()\<close>,
      \<open>positioned_item['position'] = pos\<close>, \<open>positioned_furniture.append(positioned_item)\<close>\<close>
  "add_positioned st out a pos =
     (case dict_copy st a of
        Inl e \<Rightarrow> Inl e
      | Inr (st1, positioned_item) \<Rightarrow>
          (case set_position st1 positioned_item pos of
             Inl e \<Rightarrow> Inl e
           | Inr st2 \<Rightarrow> list_append st2 out positioned_item))"

fun place_all :: "addr \<Rightarrow> addr list \<Rightarrow> store \<times> occupancy_grid \<Rightarrow> py_error + store \<times> occupancy_grid" where
  "place_all out [] sg = Inr sg"
| "place_all out (a # rest) sg =
     (case sg of (st, grid) \<Rightarrow>
        case load_dimensions st a of
          Inl e \<Rightarrow> Inl e
        | Inr d \<Rightarrow>
            let item_length = grid_units (dim_length d);
                item_width = grid_units (dim_width d)
            in case find_furniture_position grid item_length item_width grid_size of
                 None \<Rightarrow> place_all out rest (st, grid)
               | Some (x, y) \<Rightarrow>
                   let grid1 = assign_one grid (block (shape grid) y item_width x item_length)
                   in case add_positioned st out a
                             (fmul (of_int x) grid_size, fmul (of_int y) grid_size) of
                        Inl e \<Rightarrow> Inl e
                      | Inr st3 \<Rightarrow> place_all out rest (st3, grid1))"

definition position_furniture_store ::
  "store \<Rightarrow> addr \<Rightarrow> pyfloat \<Rightarrow> pyfloat \<Rightarrow> py_error + store \<times> addr" where
  \<comment> \<open>the result is the store after the call and the address of the returned list;
      \<open>sorted\<close> evaluates the key of every element before it builds its new list\<close>
  "position_furniture_store st furniture_in room_length room_width =
     (case new_object st (PyList []) of (st1, positioned_furniture) \<Rightarrow>
        let grid_length = grid_units room_length;
            grid_width = grid_units room_width
        in if grid_width < 0 \<or> grid_length < 0 then Inl ValueError
           else let grid = np_zeros (nat grid_width, nat grid_length)
                in case lookup st1 furniture_in of
                     Some (PyList items) \<Rightarrow>
                       if list_ex (\<lambda>a. isl (load_dimensions st1 a)) items then Inl TypeError
                       else (case new_object st1 (PyList (sorted_reverse (key_at st1) items)) of
                               (st2, sorted_furniture) \<Rightarrow>
                                 (case place_all positioned_furniture
                                         (sorted_reverse (key_at st1) items) (st2, grid) of
                                    Inl e \<Rightarrow> Inl e
                                  | Inr (st3, grid3) \<Rightarrow> Inr (st3, positioned_furniture)))
                   | _ \<Rightarrow> Inl TypeError)"

definition item_value :: "store \<Rightarrow> addr \<Rightarrow> furniture_item option" where
  \<comment> \<open>the item a dict without a \<open>'position'\<close> stands for\<close>
  "item_value st a =
     (case lookup st a of
        Some (Item it) \<Rightarrow>
          (case lookup st (d_dimensions it) of
             Some (Dims d) \<Rightarrow>
               Some \<lparr>item_type = d_type it, price = d_price it, item_style = d_style it,
                     dimensions = d\<rparr>
           | _ \<Rightarrow> None)
      | _ \<Rightarrow> None)"

definition positioned_value :: "store \<Rightarrow> addr \<Rightarrow> positioned_item option" where
  \<comment> \<open>the positioned item a dict with a \<open>'position'\<close> stands for\<close>
  "positioned_value st a =
     (case (item_value st a, lookup st a) of
        (Some v, Some (Item it)) \<Rightarrow>
          (case d_position it of
             Some pos \<Rightarrow> Some (furniture_item.extend v \<lparr>position = pos\<rparr>)
           | None \<Rightarrow> None)
      | _ \<Rightarrow> None)"

definition list_at :: "store \<Rightarrow> addr \<Rightarrow> addr list" where
  "list_at st a = (case lookup st a of Some (PyList xs) \<Rightarrow> xs | _ \<Rightarrow> [])"

section \<open>Auxiliary notions for the statements\<close>

fun selected :: "requirement list \<Rightarrow> pyfloat \<Rightarrow> requirement list" where
  \<comment> \<open>the requirements the greedy pass of \<open>generate_room_layout\<close> accepts, in order\<close>
  "selected [] available_area = []"
| "selected (item # rest) available_area =
     (if min_area item \<le> available_area
      then item # selected rest (fsub available_area (min_area item))
      else selected rest available_area)"

definition exact_multiplier :: "string \<Rightarrow> rat" where
  \<comment> \<open>the multiplier of a style as the decimal number the source writes, before it
      is rounded to binary64\<close>
  "exact_multiplier style =
     (case map_of [(''Modern'', 12 / 10), (''Traditional'', 11 / 10), (''Minimalist'', 1),
                   (''Scandinavian'', 13 / 10), (''Industrial'', 115 / 100)] style of
        Some m \<Rightarrow> m | None \<Rightarrow> 1)"

definition base_price_of :: "string \<Rightarrow> int" where
  \<comment> \<open>\<open>base_prices.get(type, 300)\<close>\<close>
  "base_price_of furniture_type =
     (case map_of base_prices furniture_type of Some b \<Rightarrow> b | None \<Rightarrow> 300)"


definition exact_area :: "furniture_item \<Rightarrow> rat" where
  \<comment> \<open>the product length * width of an item as a real number, before the
      multiplication of the sort key rounds it to binary64\<close>
  "exact_area x = dim_length (dimensions x) * dim_width (dimensions x)"

section \<open>Rounding to binary64\<close>

text \<open>
  \<open>ilog2\<close> finds the binary exponent of a positive rational, so \<open>fl\<close> keeps 53
  significant bits; a number with a 53-bit significand is its own rounding, and
  rounding commutes with scaling by a power of two.
\<close>

lemma pos_int_powi_bounds:
  fixes p :: int
  assumes "0 < p"
  shows "(2::rat) powi (bitlen p - 1) \<le> of_int p" "of_int p < (2::rat) powi (bitlen p)"
proof -
  have b: "2 ^ nat (bitlen p - 1) \<le> p" "p < 2 ^ nat (bitlen p)"
    using bitlen_bounds[OF assms] by auto
  have pos: "0 < bitlen p"
    using assms bitlen_eq_zero_iff[of p] bitlen_nonneg[of p] by linarith
  have "(2::rat) powi (bitlen p - 1) = of_int (2 ^ nat (bitlen p - 1))"
    using pos by (simp add: power_int_def)
  also have "\<dots> \<le> of_int p" using b(1) by (simp only: of_int_le_iff)
  finally show "(2::rat) powi (bitlen p - 1) \<le> of_int p" .
  have "(of_int p :: rat) < of_int (2 ^ nat (bitlen p))" using b(2) by (simp only: of_int_less_iff)
  also have "\<dots> = (2::rat) powi (bitlen p)" using pos by (simp add: power_int_def)
  finally show "of_int p < (2::rat) powi (bitlen p)" .
qed

lemma ilog2_bounds:
  assumes "0 < x"
  shows "2 powi (ilog2 x) \<le> x" "x < 2 powi (ilog2 x + 1)"
proof -
  obtain p q where pq: "quotient_of x = (p, q)" by (cases "quotient_of x")
  have q: "0 < q" using pq quotient_of_denom_pos by blast
  have x: "x = of_int p / of_int q" using pq quotient_of_div by blast
  have p: "0 < p" using assms q x by (simp add: zero_less_divide_iff)
  note bp = pos_int_powi_bounds[OF p] and bq = pos_int_powi_bounds[OF q]
  define a where "a = bitlen p - bitlen q"
  have qpos: "(0::rat) < of_int q" using q by simp
  have up: "x < 2 powi (a + 1)"
  proof -
    have "x * of_int q = of_int p" using x qpos by simp
    also have "\<dots> < 2 powi (bitlen p)" by (rule bp(2))
    also have "\<dots> = (2::rat) powi (a + 1) * 2 powi (bitlen q - 1)"
      by (simp add: a_def power_int_add[symmetric])
    also have "\<dots> \<le> 2 powi (a + 1) * of_int q"
      using bq(1) by (simp add: mult_left_mono)
    finally show ?thesis using qpos by simp
  qed
  have lo: "2 powi (a - 1) < x"
  proof -
    have "(2::rat) powi (a - 1) * of_int q < 2 powi (a - 1) * 2 powi (bitlen q)"
      using bq(2) by (simp add: mult_strict_left_mono)
    also have "\<dots> = 2 powi (bitlen p - 1)"
      by (simp add: a_def power_int_add[symmetric])
    also have "\<dots> \<le> of_int p" by (rule bp(1))
    also have "\<dots> = x * of_int q" using x qpos by simp
    finally show ?thesis using qpos by simp
  qed
  have il: "ilog2 x = (if 2 powi a \<le> x then a else a - 1)"
    by (simp add: ilog2_def pq a_def Let_def)
  show "2 powi (ilog2 x) \<le> x" using lo by (simp add: il)
  show "x < 2 powi (ilog2 x + 1)" using up by (auto simp: il not_le)
qed

lemma powi2_mono_less: "(2::rat) powi a < 2 powi b \<Longrightarrow> a < b"
  using power_int_increasing[of b a "2::rat"] by (cases "a < b") simp_all

lemma ilog2_unique:
  assumes "0 < x" "2 powi k \<le> x" "x < 2 powi (k + 1)"
  shows "ilog2 x = k"
proof -
  note b = ilog2_bounds[OF assms(1)]
  have "(2::rat) powi k < 2 powi (ilog2 x + 1)" using assms(2) b(2) by linarith
  then have 1: "k < ilog2 x + 1" by (rule powi2_mono_less)
  have "(2::rat) powi (ilog2 x) < 2 powi (k + 1)" using assms(3) b(1) by linarith
  then have 2: "ilog2 x < k + 1" by (rule powi2_mono_less)
  show ?thesis using 1 2 by simp
qed

lemma rne_unique:
  assumes "\<bar>x - of_int m\<bar> < 1 / 2"
  shows "rne x = m"
proof -
  have lo: "of_int m - 1 / 2 < x" and hi: "x < of_int m + 1 / 2"
    using assms by linarith+
  have "\<lfloor>x\<rfloor> = m \<or> \<lfloor>x\<rfloor> = m - 1"
    using lo hi by (auto simp: floor_eq_iff)
  then show ?thesis
  proof
    assume f: "\<lfloor>x\<rfloor> = m"
    have "x - of_int m < 1 / 2" using hi by linarith
    then show ?thesis by (simp add: rne_def f Let_def)
  next
    assume f: "\<lfloor>x\<rfloor> = m - 1"
    have "1 / 2 < x - of_int (m - 1)" using lo by simp
    then show ?thesis by (simp add: rne_def f Let_def)
  qed
qed

lemma rne_of_int [simp]: "rne (of_int m) = m"
  by (rule rne_unique) simp

lemma fl_eqI:
  assumes "2 powi (e + 52) \<le> \<bar>x\<bar>" "\<bar>x\<bar> < 2 powi (e + 53)"
      and "\<bar>x / 2 powi e - of_int m\<bar> < 1 / 2"
  shows "fl x = of_int m * 2 powi e"
proof -
  have "(0::rat) < 2 powi (e + 52)" by simp
  then have pos: "0 < \<bar>x\<bar>" using assms(1) by linarith
  then have nz: "x \<noteq> 0" by simp
  have "ilog2 \<bar>x\<bar> = e + 52"
    using assms(1,2) by (intro ilog2_unique[OF pos]) (simp_all add: add.commute add.left_commute)
  then show ?thesis using nz assms(3) by (simp add: fl_def Let_def rne_unique)
qed

lemma fl_scale: "fl (x * 2 powi k) = fl x * 2 powi k"
proof (cases "x = 0")
  case True then show ?thesis by (simp add: fl_def)
next
  case False
  then have pos: "0 < \<bar>x\<bar>" by simp
  have pos2: "0 < \<bar>x * 2 powi k\<bar>" using False by simp
  note b = ilog2_bounds[OF pos]
  have a: "\<bar>x * 2 powi k\<bar> = \<bar>x\<bar> * 2 powi k" by (simp add: abs_mult)
  have "ilog2 \<bar>x * 2 powi k\<bar> = ilog2 \<bar>x\<bar> + k"
  proof (rule ilog2_unique[OF pos2])
    show "2 powi (ilog2 \<bar>x\<bar> + k) \<le> \<bar>x * 2 powi k\<bar>"
      using b(1) by (simp add: a power_int_add mult_right_mono)
    show "\<bar>x * 2 powi k\<bar> < 2 powi (ilog2 \<bar>x\<bar> + k + 1)"
      using b(2) by (simp add: a power_int_add mult_strict_right_mono)
  qed
  then show ?thesis using False
    by (simp add: fl_def Let_def power_int_add power_int_diff field_simps)
qed

lemma fl_representable:
  assumes "\<bar>m\<bar> < 2 ^ 53"
  shows "fl (of_int m * 2 powi e) = of_int m * 2 powi e"
proof (cases "m = 0")
  case True then show ?thesis by (simp add: fl_def)
next
  case False
  define x :: rat where "x = of_int m"
  have pos: "0 < \<bar>x\<bar>" using False by (simp add: x_def)
  define k where "k = ilog2 \<bar>x\<bar>"
  note b = ilog2_bounds[OF pos, folded k_def]
  have "\<bar>x\<bar> < 2 powi 53" using assms
    by (simp add: x_def flip: of_int_abs)
  then have "(2::rat) powi k < 2 powi 53" using b(1) by linarith
  then have k: "k < 53" by (rule powi2_mono_less)
  define j where "j = nat (52 - k)"
  have pj: "(2::rat) powi (k - 52) = 1 / 2 ^ j"
    using k by (simp add: j_def power_int_def field_simps)
  have "x / 2 powi (k - 52) = of_int (m * 2 ^ j)"
    by (simp add: pj x_def)
  then have r: "rne (x / 2 powi (k - 52)) = m * 2 ^ j" by (simp del: of_int_mult of_int_power)
  have "fl x = of_int (rne (x / 2 powi (k - 52))) * 2 powi (k - 52)"
    using pos by (simp add: fl_def Let_def k_def)
  also have "\<dots> = of_int (m * 2 ^ j) * 2 powi (k - 52)" by (simp only: r)
  also have "\<dots> = of_int (m * 2 ^ j) * (1 / 2 ^ j)" by (simp only: pj)
  also have "\<dots> = x" by (simp add: x_def)
  finally have "fl x = x" .
  then show ?thesis using fl_scale[of x e] by (simp add: x_def)
qed

lemma fl_div_half: "fl x = x \<Longrightarrow> fl (x / (1 / 2)) = x / (1 / 2)"
  using fl_scale[of x 1] by simp

lemma grid_size_half: "grid_size = 1 / 2"
  unfolding grid_size_def using fl_representable[of 1 "-1"] by simp

section \<open>Values of the literals and of the arithmetic of scenario 1\<close>

lemma lit_0_7: "fl (7 / 10) = 3152519739159347 / 4503599627370496"
  by code_simp

lemma lit_3_5: "fl (7 / 2) = 7 / 2"
  by code_simp

lemma lit_1_2: "fl (6 / 5) = 5404319552844595 / 4503599627370496"
  by code_simp

lemma lit_0_2: "fl (1 / 5) = 3602879701896397 / 18014398509481984"
  by code_simp

lemma area_5x4: "fmul (fmul 5 4) (3152519739159347 / 4503599627370496) = 14"
  by code_simp

lemma bed_fits: "fsub 14 (7 / 2) = 21 / 2"
  by code_simp

lemma wardrobe_fits:
  "fsub (21 / 2) (5404319552844595 / 4503599627370496) = 2617717283409101 / 281474976710656"
  by code_simp

lemma modern_prices:
  "py_int (fmul 800 (5404319552844595 / 4503599627370496)) = 960"
  "py_int (fmul 600 (5404319552844595 / 4503599627370496)) = 720"
  "py_int (fmul 100 (5404319552844595 / 4503599627370496)) = 120"
  "py_int (fmul 1000 (5404319552844595 / 4503599627370496)) = 1200"
  by code_simp+

lemma industrial_nightstand: "py_int (fmul 100 (fl (23 / 20))) = 114"
  by code_simp

lemmas layout_defs = generate_room_layout_def build_layout_def add_required_def
  generate_furniture_item_def base_prices_def style_multipliers_def Let_def

section \<open>The layout generator\<close>

text \<open>
  Claim C3. For room type Bedroom, style Modern, length 5 and width 4 the catalog gives
  bed (3.5), wardrobe (1.2) and nightstand (0.2); the available area is 14.0 and admits
  the three in sequence; each of the three generated options selects exactly bed,
  wardrobe and nightstand in that order, at prices 960, 720 and 120, and costs 1800.
\<close>

theorem bedroom_modern_5_by_4:
  "get_furniture_requirements ''Bedroom'' =
     [\<lparr>req_type = ''bed'', priority = 1, min_area = fl (35 / 10)\<rparr>,
      \<lparr>req_type = ''wardrobe'', priority = 1, min_area = fl (12 / 10)\<rparr>,
      \<lparr>req_type = ''nightstand'', priority = 2, min_area = fl (2 / 10)\<rparr>]
   \<and> fmul (fmul 5 4) (fl (7 / 10)) = 14
   \<and> fl (35 / 10) \<le> 14
   \<and> fl (12 / 10) \<le> fsub 14 (fl (35 / 10))
   \<and> fl (2 / 10) \<le> fsub (fsub 14 (fl (35 / 10))) (fl (12 / 10))
   \<and> map (\<lambda>l. (map item_type (furniture l), map price (furniture l), cost l))
        (generate_room_layout (fmul 5 4) ''Bedroom'' ''Modern''
           (get_furniture_requirements ''Bedroom''))
      = [([''bed'', ''wardrobe'', ''nightstand''], [960, 720, 120], 1800),
         ([''bed'', ''wardrobe'', ''nightstand''], [960, 720, 120], 1800),
         ([''bed'', ''wardrobe'', ''nightstand''], [960, 720, 120], 1800)]"
  by (simp add: layout_defs get_furniture_requirements_def requirements_def
      lit_0_7 lit_3_5 lit_1_2 lit_0_2 area_5x4 bed_fits wardrobe_fits modern_prices)

text \<open>
  Claim C2, as the code behaves. Whatever the input, \<open>generate_layout_suggestions\<close> ends
  in \<open>NameError\<close>: after the layouts are generated and filtered it calls
  \<open>generate_recommendations\<close>, a name that is bound nowhere.
\<close>

theorem generate_layout_suggestions_raises:
  "generate_layout_suggestions room_length room_width room_height room_type style budget feats
     = Inl (NameError ''generate_recommendations'')"
  by (simp add: generate_layout_suggestions_def generate_recommendations_def)

text \<open>
  Claim C5. For every list of layout options and every budget pair, the budget filter
  keeps exactly the options whose cost lies between the two bounds, both inclusive, in
  their original relative order: the result is a subsequence of the input, an option is
  in the result if and only if it is in the input and its cost is in range, and the
  result may be empty.
\<close>

theorem filter_by_budget_exact:
  "filter_by_budget layouts (min_budget, max_budget)
     = filter (\<lambda>l. min_budget \<le> of_int (cost l) \<and> of_int (cost l) \<le> max_budget) layouts
   \<and> subseq (filter_by_budget layouts (min_budget, max_budget)) layouts
   \<and> (\<forall>l. l \<in> set (filter_by_budget layouts (min_budget, max_budget))
          \<longleftrightarrow> l \<in> set layouts \<and> min_budget \<le> of_int (cost l) \<and> of_int (cost l) \<le> max_budget)
   \<and> filter_by_budget [] (min_budget, max_budget) = []"
  by (auto simp add: filter_by_budget_def)

lemma fold_add_required:
  "fold (add_required style) reqs (l, a)
     = (l\<lparr>furniture := furniture l @ map (\<lambda>r. generate_furniture_item r style) (selected reqs a),
          cost := cost l + sum_list (map (\<lambda>r. price (generate_furniture_item r style)) (selected reqs a))\<rparr>,
        snd (fold (add_required style) reqs (l, a)))"
proof (induction reqs arbitrary: l a)
  case Nil
  then show ?case by simp
next
  case (Cons r rs)
  show ?case
  proof (cases "min_area r \<le> a")
    case True
    then show ?thesis
      by (subst fold_simps, simp add: add_required_def Let_def, subst Cons.IH) (simp add: add_required_def Let_def)
  next
    case False
    then show ?thesis
      by (subst fold_simps, simp add: add_required_def Let_def, subst Cons.IH) (simp add: add_required_def Let_def)
  qed
qed

lemma description_ignores_id:
  "generate_layout_description (l\<lparr>layout_id := i\<rparr>) style room_type
     = generate_layout_description l style room_type"
  by (simp add: generate_layout_description_def)

lemma features_ignore_id:
  "generate_layout_features (l\<lparr>layout_id := i, description := d\<rparr>) style
     = generate_layout_features (l\<lparr>description := d\<rparr>) style"
  by (simp add: generate_layout_features_def cong: if_cong)

lemma fold_add_required_id:
  "fst (fold (add_required style) reqs (l\<lparr>layout_id := i\<rparr>, a))
     = (fst (fold (add_required style) reqs (l, a)))\<lparr>layout_id := i\<rparr>"
proof -
  have s: "selected reqs a = selected reqs a" ..
  show ?thesis by (subst (1 2) fold_add_required) simp
qed

lemma build_layout_id:
  "build_layout i area room_type style reqs
     = (build_layout 0 area room_type style reqs)\<lparr>layout_id := i + 1\<rparr>"
proof -
  define l0 where "l0 = \<lparr>layout_id = 0 + 1, furniture = [], cost = 0, description = [], features = []\<rparr>"
  define a where "a = fmul area (fl (7 / 10))"
  define l1 where "l1 = fst (fold (add_required style) reqs (l0, a))"
  have init: "\<lparr>layout_id = i + 1, furniture = [], cost = 0, description = [], features = []\<rparr>
      = l0\<lparr>layout_id := i + 1\<rparr>" by (simp add: l0_def)
  have b0: "build_layout 0 area room_type style reqs
      = l1\<lparr>description := generate_layout_description l1 style room_type,
           features := generate_layout_features
              (l1\<lparr>description := generate_layout_description l1 style room_type\<rparr>) style\<rparr>"
    unfolding build_layout_def Let_def l1_def l0_def a_def ..
  have bi: "build_layout i area room_type style reqs
      = (l1\<lparr>layout_id := i + 1\<rparr>)\<lparr>description := generate_layout_description (l1\<lparr>layout_id := i + 1\<rparr>) style room_type,
           features := generate_layout_features
              ((l1\<lparr>layout_id := i + 1\<rparr>)\<lparr>description := generate_layout_description (l1\<lparr>layout_id := i + 1\<rparr>) style room_type\<rparr>) style\<rparr>"
    unfolding build_layout_def Let_def init fold_add_required_id l1_def a_def ..
  show ?thesis
    unfolding bi b0 description_ignores_id features_ignore_id
    by simp
qed


lemma generate_room_layout_closed:
  "generate_room_layout area room_type style reqs
     = map (\<lambda>i. (build_layout 0 area room_type style reqs)\<lparr>layout_id := i\<rparr>) [1, 2, 3]"
proof -
  define b0 where "b0 = build_layout 0 area room_type style reqs"
  have b: "build_layout i area room_type style reqs = b0\<lparr>layout_id := i + 1\<rparr>" for i
    unfolding b0_def by (rule build_layout_id)
  have "generate_room_layout area room_type style reqs
          = [b0\<lparr>layout_id := 0 + 1\<rparr>, b0\<lparr>layout_id := 1 + 1\<rparr>, b0\<lparr>layout_id := 2 + 1\<rparr>]"
    unfolding generate_room_layout_def list.map b ..
  then show ?thesis unfolding b0_def by simp
qed

text \<open>
  Claim C8. For every area, room type, style and archetype list the candidate generator
  returns exactly three options, with ids 1, 2 and 3, and any two options of one call
  agree in furniture, cost, description and features: the three are one and the same
  option but for the id. The generator is a function of its four arguments alone (it
  reads no clock, random source or mutable global), so equal inputs give equal results.
\<close>

theorem generate_room_layout_three:
  "generate_room_layout area room_type style reqs
     = map (\<lambda>i. (build_layout 0 area room_type style reqs)\<lparr>layout_id := i\<rparr>) [1, 2, 3]
   \<and> length (generate_room_layout area room_type style reqs) = 3
   \<and> map layout_id (generate_room_layout area room_type style reqs) = [1, 2, 3]
   \<and> (\<forall>a \<in> set (generate_room_layout area room_type style reqs).
       \<forall>b \<in> set (generate_room_layout area room_type style reqs).
         furniture a = furniture b \<and> cost a = cost b
         \<and> description a = description b \<and> features a = features b)"
proof -
  define b0 where "b0 = build_layout 0 area room_type style reqs"
  have eq: "generate_room_layout area room_type style reqs
     = map (\<lambda>i. b0\<lparr>layout_id := i\<rparr>) [1, 2, 3]"
    unfolding b0_def by (rule generate_room_layout_closed)
  show ?thesis unfolding b0_def[symmetric] eq by simp
qed

lemma features_ignore_features:
  "generate_layout_features (l\<lparr>features := f\<rparr>) style = generate_layout_features l style"
  by (simp add: generate_layout_features_def cong: if_cong)

lemma features_ignore_description:
  "generate_layout_features (l\<lparr>description := d\<rparr>) style = generate_layout_features l style"
  by (simp add: generate_layout_features_def cong: if_cong)

lemma build_layout_features:
  "features (build_layout i area room_type style reqs)
     = generate_layout_features (build_layout i area room_type style reqs) style"
  unfolding build_layout_def Let_def
  by (simp add: features_ignore_features)

lemma style_features_plain:
  "''Complete room setup'' \<notin> set (case map_of style_features style of
       Some fs \<Rightarrow> fs | None \<Rightarrow> [''Balanced design'', ''Functional layout''])"
  "''Budget-friendly selection'' \<notin> set (case map_of style_features style of
       Some fs \<Rightarrow> fs | None \<Rightarrow> [''Balanced design'', ''Functional layout''])"
  "''Premium quality pieces'' \<notin> set (case map_of style_features style of
       Some fs \<Rightarrow> fs | None \<Rightarrow> [''Balanced design'', ''Functional layout''])"
  by (simp_all add: style_features_def)

lemma features_complete:
  "''Complete room setup'' \<in> set (generate_layout_features l style) \<longleftrightarrow> 3 \<le> length (furniture l)"
  using style_features_plain(1)[of style]
  by (simp add: generate_layout_features_def Let_def)

lemma features_budget:
  "''Budget-friendly selection'' \<in> set (generate_layout_features l style) \<longleftrightarrow> cost l < 2000"
  using style_features_plain(2)[of style]
  by (simp add: generate_layout_features_def Let_def)

lemma features_premium:
  "''Premium quality pieces'' \<in> set (generate_layout_features l style) \<longleftrightarrow> 5000 < cost l"
  using style_features_plain(3)[of style]
  by (auto simp add: generate_layout_features_def Let_def)


lemma build_layout_fields:
  "furniture (build_layout i area room_type style reqs)
     = map (\<lambda>r. generate_furniture_item r style) (selected reqs (fmul area (fl (7 / 10))))"
  "cost (build_layout i area room_type style reqs)
     = sum_list (map (\<lambda>r. price (generate_furniture_item r style))
                     (selected reqs (fmul area (fl (7 / 10)))))"
  unfolding build_layout_def Let_def
  by (subst fold_add_required, simp)+

lemma subseq_selected: "subseq (selected reqs a) reqs"
  by (induction reqs arbitrary: a) auto

lemma subseq_set: "subseq xs ys \<Longrightarrow> set xs \<subseteq> set ys"
  by (induction rule: list_emb.induct) auto

lemma subseq_distinct: "subseq xs ys \<Longrightarrow> distinct ys \<Longrightarrow> distinct xs"
proof (induction rule: list_emb.induct)
  case (list_emb_Cons2 x y xs ys)
  then show ?case using subseq_set[of xs ys] by auto
qed auto

lemma item_type_generate [simp]: "item_type (generate_furniture_item r style) = req_type r"
  by (simp add: generate_furniture_item_def Let_def)

lemma distinct_selected_types:
  assumes "distinct (map req_type reqs)"
  shows "distinct (map item_type (furniture (build_layout i area room_type style reqs)))"
proof -
  have "subseq (map req_type (selected reqs (fmul area (fl (7 / 10))))) (map req_type reqs)"
    by (rule subseq_map) (rule subseq_selected)
  then have "distinct (map req_type (selected reqs (fmul area (fl (7 / 10)))))"
    using assms by (rule subseq_distinct)
  then show ?thesis by (simp add: build_layout_fields(1) comp_def)
qed

theorem generate_room_layout_three_witness:
  "build_layout 0 20 ''Bedroom'' ''Modern'' (get_furniture_requirements ''Bedroom'')
     \<in> set (generate_room_layout 20 ''Bedroom'' ''Modern'' (get_furniture_requirements ''Bedroom''))
   \<and> build_layout 2 20 ''Bedroom'' ''Modern'' (get_furniture_requirements ''Bedroom'')
     \<in> set (generate_room_layout 20 ''Bedroom'' ''Modern'' (get_furniture_requirements ''Bedroom''))
   \<and> layout_id (build_layout 0 20 ''Bedroom'' ''Modern'' (get_furniture_requirements ''Bedroom'')) = 1
   \<and> layout_id (build_layout 2 20 ''Bedroom'' ''Modern'' (get_furniture_requirements ''Bedroom'')) = 3
   \<and> furniture (build_layout 0 20 ''Bedroom'' ''Modern'' (get_furniture_requirements ''Bedroom''))
       = furniture (build_layout 2 20 ''Bedroom'' ''Modern'' (get_furniture_requirements ''Bedroom''))
   \<and> cost (build_layout 0 20 ''Bedroom'' ''Modern'' (get_furniture_requirements ''Bedroom''))
       = cost (build_layout 2 20 ''Bedroom'' ''Modern'' (get_furniture_requirements ''Bedroom''))
   \<and> description (build_layout 0 20 ''Bedroom'' ''Modern'' (get_furniture_requirements ''Bedroom''))
       = description (build_layout 2 20 ''Bedroom'' ''Modern'' (get_furniture_requirements ''Bedroom''))
   \<and> features (build_layout 0 20 ''Bedroom'' ''Modern'' (get_furniture_requirements ''Bedroom''))
       = features (build_layout 2 20 ''Bedroom'' ''Modern'' (get_furniture_requirements ''Bedroom''))
   \<and> length (generate_room_layout 20 ''Bedroom'' ''Modern'' (get_furniture_requirements ''Bedroom'')) = 3"
proof -
  define reqs where "reqs = get_furniture_requirements ''Bedroom''"
  define g where "g = generate_room_layout 20 ''Bedroom'' ''Modern'' reqs"
  have m0: "build_layout 0 20 ''Bedroom'' ''Modern'' reqs \<in> set g"
   and m2: "build_layout 2 20 ''Bedroom'' ''Modern'' reqs \<in> set g"
    unfolding g_def generate_room_layout_def by simp_all
  have id0: "layout_id (build_layout 0 20 ''Bedroom'' ''Modern'' reqs) = 1"
   and id2: "layout_id (build_layout 2 20 ''Bedroom'' ''Modern'' reqs) = 3"
    by (subst build_layout_id, simp)+
  note t = generate_room_layout_three[of 20 "''Bedroom''" "''Modern''" reqs, folded g_def]
  from t have len: "length g = 3" by blast
  from t m0 m2 have
    "furniture (build_layout 0 20 ''Bedroom'' ''Modern'' reqs)
       = furniture (build_layout 2 20 ''Bedroom'' ''Modern'' reqs)
     \<and> cost (build_layout 0 20 ''Bedroom'' ''Modern'' reqs)
       = cost (build_layout 2 20 ''Bedroom'' ''Modern'' reqs)
     \<and> description (build_layout 0 20 ''Bedroom'' ''Modern'' reqs)
       = description (build_layout 2 20 ''Bedroom'' ''Modern'' reqs)
     \<and> features (build_layout 0 20 ''Bedroom'' ''Modern'' reqs)
       = features (build_layout 2 20 ''Bedroom'' ''Modern'' reqs)"
    by blast
  with m0 m2 id0 id2 len show ?thesis unfolding g_def reqs_def by blast
qed

text \<open>
  Claim C9, amended. For every option the generator returns, the feature list contains
  "Complete room setup" exactly when the option holds at least three furniture items;
  when the archetype list names no type twice (as every catalog list does) this is the
  same as at least three distinct furniture types. It contains "Budget-friendly
  selection" exactly when the cost is below 2000 and "Premium quality pieces" exactly
  when the cost is above 5000, never both, and neither for a cost from 2000 to 5000.
\<close>

theorem layout_features_exact:
  assumes "l \<in> set (generate_room_layout area room_type style reqs)"
  shows "(''Complete room setup'' \<in> set (features l) \<longleftrightarrow> 3 \<le> length (furniture l))
     \<and> (distinct (map req_type reqs) \<longrightarrow>
          (''Complete room setup'' \<in> set (features l)
             \<longleftrightarrow> 3 \<le> card (item_type ` set (furniture l))))
     \<and> (''Budget-friendly selection'' \<in> set (features l) \<longleftrightarrow> cost l < 2000)
     \<and> (''Premium quality pieces'' \<in> set (features l) \<longleftrightarrow> 5000 < cost l)
     \<and> \<not> (''Budget-friendly selection'' \<in> set (features l)
            \<and> ''Premium quality pieces'' \<in> set (features l))
     \<and> (2000 \<le> cost l \<and> cost l \<le> 5000 \<longrightarrow>
          ''Budget-friendly selection'' \<notin> set (features l)
          \<and> ''Premium quality pieces'' \<notin> set (features l))"
proof -
  from assms obtain i where l: "l = build_layout i area room_type style reqs"
    unfolding generate_room_layout_def by auto
  have f: "features l = generate_layout_features l style"
    unfolding l by (rule build_layout_features)
  have c: "''Complete room setup'' \<in> set (features l) \<longleftrightarrow> 3 \<le> length (furniture l)"
    unfolding f by (rule features_complete)
  have b: "''Budget-friendly selection'' \<in> set (features l) \<longleftrightarrow> cost l < 2000"
    unfolding f by (rule features_budget)
  have p: "''Premium quality pieces'' \<in> set (features l) \<longleftrightarrow> 5000 < cost l"
    unfolding f by (rule features_premium)
  have d: "card (item_type ` set (furniture l)) = length (furniture l)"
    if "distinct (map req_type reqs)"
  proof -
    have "distinct (map item_type (furniture l))"
      unfolding l using that by (rule distinct_selected_types)
    then have "card (set (map item_type (furniture l))) = length (map item_type (furniture l))"
      by (rule distinct_card)
    then show ?thesis by simp
  qed
  show ?thesis using c b p d by auto
qed


lemma lit_2: "fl 2 = 2"
  by code_simp

lemma three_sofas: "fsub 14 2 = 12" "fsub 12 2 = 10"
  by code_simp+

lemma selected_bedroom:
  "selected (get_furniture_requirements ''Bedroom'') (fmul (fmul 5 4) (fl (7 / 10)))
     = get_furniture_requirements ''Bedroom''"
  by (simp add: get_furniture_requirements_def requirements_def
      lit_0_7 lit_3_5 lit_1_2 lit_0_2 area_5x4 bed_fits wardrobe_fits)

lemma bedroom_types:
  "map req_type (get_furniture_requirements ''Bedroom'') = [''bed'', ''wardrobe'', ''nightstand'']"
  by (simp add: get_furniture_requirements_def requirements_def)

lemma bedroom_modern_cost:
  "sum_list (map (\<lambda>r. price (generate_furniture_item r ''Modern''))
       (get_furniture_requirements ''Bedroom'')) = 1800"
  by (simp add: get_furniture_requirements_def requirements_def generate_furniture_item_def
      base_prices_def style_multipliers_def lit_1_2 modern_prices)

theorem layout_features_exact_witness:
  "build_layout 0 (fmul 5 4) ''Bedroom'' ''Modern'' (get_furniture_requirements ''Bedroom'')
     \<in> set (generate_room_layout (fmul 5 4) ''Bedroom'' ''Modern''
              (get_furniture_requirements ''Bedroom''))
   \<and> distinct (map req_type (get_furniture_requirements ''Bedroom''))
   \<and> length (furniture (build_layout 0 (fmul 5 4) ''Bedroom'' ''Modern''
                 (get_furniture_requirements ''Bedroom''))) = 3
   \<and> card (item_type ` set (furniture (build_layout 0 (fmul 5 4) ''Bedroom'' ''Modern''
                 (get_furniture_requirements ''Bedroom'')))) = 3
   \<and> cost (build_layout 0 (fmul 5 4) ''Bedroom'' ''Modern''
                 (get_furniture_requirements ''Bedroom'')) = 1800
   \<and> ''Complete room setup'' \<in> set (features (build_layout 0 (fmul 5 4) ''Bedroom'' ''Modern''
                 (get_furniture_requirements ''Bedroom'')))
   \<and> ''Budget-friendly selection'' \<in> set (features (build_layout 0 (fmul 5 4) ''Bedroom''
                 ''Modern'' (get_furniture_requirements ''Bedroom'')))
   \<and> ''Premium quality pieces'' \<notin> set (features (build_layout 0 (fmul 5 4) ''Bedroom''
                 ''Modern'' (get_furniture_requirements ''Bedroom'')))"
proof -
  define reqs where "reqs = get_furniture_requirements ''Bedroom''"
  define l where "l = build_layout 0 (fmul 5 4) ''Bedroom'' ''Modern'' reqs"
  have m: "l \<in> set (generate_room_layout (fmul 5 4) ''Bedroom'' ''Modern'' reqs)"
    unfolding l_def generate_room_layout_def by simp
  have d: "distinct (map req_type reqs)"
    unfolding reqs_def bedroom_types by simp
  have len: "length (furniture l) = 3"
    unfolding l_def reqs_def build_layout_fields selected_bedroom
    by (simp add: get_furniture_requirements_def requirements_def)
  have c: "cost l = 1800"
    unfolding l_def reqs_def build_layout_fields selected_bedroom by (rule bedroom_modern_cost)
  note t = layout_features_exact[OF m]
  from t d len have card: "card (item_type ` set (furniture l)) = 3"
    using distinct_card[OF distinct_selected_types[OF d, of 0 "fmul 5 4" "''Bedroom''" "''Modern''"]]
    by (simp add: l_def)
  from t len c show ?thesis
    using m d card unfolding l_def reqs_def by simp
qed

text \<open>
  The claim as stated counts distinct types, the code counts items: for an archetype
  list of three sofas the option is tagged "Complete room setup" with one type.
\<close>

theorem three_sofas_complete_setup:
  "build_layout 0 (fmul 5 4) ''Living Room'' ''Modern''
       [\<lparr>req_type = ''sofa'', priority = 1, min_area = fl 2\<rparr>,
        \<lparr>req_type = ''sofa'', priority = 1, min_area = fl 2\<rparr>,
        \<lparr>req_type = ''sofa'', priority = 1, min_area = fl 2\<rparr>]
     \<in> set (generate_room_layout (fmul 5 4) ''Living Room'' ''Modern''
       [\<lparr>req_type = ''sofa'', priority = 1, min_area = fl 2\<rparr>,
        \<lparr>req_type = ''sofa'', priority = 1, min_area = fl 2\<rparr>,
        \<lparr>req_type = ''sofa'', priority = 1, min_area = fl 2\<rparr>])
   \<and> ''Complete room setup'' \<in> set (features (build_layout 0 (fmul 5 4) ''Living Room'' ''Modern''
       [\<lparr>req_type = ''sofa'', priority = 1, min_area = fl 2\<rparr>,
        \<lparr>req_type = ''sofa'', priority = 1, min_area = fl 2\<rparr>,
        \<lparr>req_type = ''sofa'', priority = 1, min_area = fl 2\<rparr>]))
   \<and> card (item_type ` set (furniture (build_layout 0 (fmul 5 4) ''Living Room'' ''Modern''
       [\<lparr>req_type = ''sofa'', priority = 1, min_area = fl 2\<rparr>,
        \<lparr>req_type = ''sofa'', priority = 1, min_area = fl 2\<rparr>,
        \<lparr>req_type = ''sofa'', priority = 1, min_area = fl 2\<rparr>]))) = 1"
proof -
  define reqs where "reqs = [\<lparr>req_type = ''sofa'', priority = 1, min_area = fl 2\<rparr>,
        \<lparr>req_type = ''sofa'', priority = 1, min_area = fl 2\<rparr>,
        \<lparr>req_type = ''sofa'', priority = 1, min_area = fl 2\<rparr>]"
  define l where "l = build_layout 0 (fmul 5 4) ''Living Room'' ''Modern'' reqs"
  have m: "l \<in> set (generate_room_layout (fmul 5 4) ''Living Room'' ''Modern'' reqs)"
    unfolding l_def generate_room_layout_def by simp
  have s: "selected reqs (fmul (fmul 5 4) (fl (7 / 10))) = reqs"
    unfolding reqs_def by (simp add: lit_0_7 area_5x4 lit_2 three_sofas)
  have f: "furniture l = map (\<lambda>r. generate_furniture_item r ''Modern'') reqs"
    unfolding l_def build_layout_fields s ..
  have len: "length (furniture l) = 3" unfolding f reqs_def by simp
  have c: "''Complete room setup'' \<in> set (features l)"
    unfolding l_def build_layout_features features_complete
    using len unfolding l_def by simp
  have "item_type ` set (furniture l) = {''sofa''}"
    unfolding f reqs_def by simp
  then have k: "card (item_type ` set (furniture l)) = 1" by simp
  show ?thesis using m c k unfolding l_def reqs_def by blast
qed

section \<open>The placement engine\<close>

lemma rne_nonneg: "0 \<le> x \<Longrightarrow> 0 \<le> rne x"
  by (auto simp: rne_def Let_def)

lemma fl_nonneg: "0 \<le> x \<Longrightarrow> 0 \<le> fl x"
  by (simp add: fl_def Let_def rne_nonneg)

text \<open>Rounding to binary64 is monotone and odd.\<close>

lemma rne_floor_cases: "rne x = \<lfloor>x\<rfloor> \<or> rne x = \<lfloor>x\<rfloor> + 1"
  by (simp add: rne_def Let_def)

lemma rne_mono:
  assumes "x \<le> y"
  shows "rne x \<le> rne y"
proof (cases "\<lfloor>x\<rfloor> = \<lfloor>y\<rfloor>")
  case True
  have "x - of_int \<lfloor>x\<rfloor> \<le> y - of_int \<lfloor>y\<rfloor>" using assms True by simp
  then show ?thesis unfolding rne_def Let_def True by auto
next
  case False
  have "\<lfloor>x\<rfloor> \<le> \<lfloor>y\<rfloor>" using assms by (rule floor_mono)
  then have "\<lfloor>x\<rfloor> + 1 \<le> \<lfloor>y\<rfloor>" using False by simp
  moreover have "rne x \<le> \<lfloor>x\<rfloor> + 1" using rne_floor_cases[of x] by auto
  moreover have "\<lfloor>y\<rfloor> \<le> rne y" using rne_floor_cases[of y] by auto
  ultimately show ?thesis by linarith
qed

lemma rne_uminus: "rne (- x) = - rne x"
proof (cases "x = of_int \<lfloor>x\<rfloor>")
  case True
  then obtain m where "x = of_int m" by blast
  then show ?thesis using rne_of_int[of "- m"] by simp
next
  case False
  have ne: "of_int \<lfloor>x\<rfloor> \<noteq> x" using False by (rule not_sym)
  have lo: "of_int \<lfloor>x\<rfloor> < x"
    using ne of_int_floor_le[of x] by (rule order.not_eq_order_implies_strict)
  have hi: "x < of_int \<lfloor>x\<rfloor> + 1" by linarith
  have f: "\<lfloor>- x\<rfloor> = - \<lfloor>x\<rfloor> - 1"
    using lo hi by (simp add: floor_eq_iff)
  define d where "d = x - of_int \<lfloor>x\<rfloor>"
  define k where "k = \<lfloor>x\<rfloor>"
  have d': "- x - of_int (- k - 1) = 1 - d" by (simp add: d_def k_def)
  have a: "rne (- x) = (if 1 - d < 1 / 2 then - k - 1 else if 1 / 2 < 1 - d then - k - 1 + 1
                        else if even (- k - 1) then - k - 1 else - k - 1 + 1)"
    unfolding rne_def Let_def f k_def[symmetric] d' ..
  have b: "rne x = (if d < 1 / 2 then k else if 1 / 2 < d then k + 1
                    else if even k then k else k + 1)"
    unfolding rne_def Let_def d_def k_def ..
  consider "d < 1 / 2" | "d = 1 / 2" | "1 / 2 < d" by linarith
  then show ?thesis
  proof cases
    case 1
    then show ?thesis unfolding a b by simp
  next
    case 2
    then show ?thesis unfolding a b by simp
  next
    case 3
    then show ?thesis unfolding a b by simp
  qed
qed

lemma fl_uminus: "fl (- x) = - fl x"
  by (simp add: fl_def Let_def rne_uminus)

lemma ilog2_mono:
  assumes "0 < x" "x \<le> y"
  shows "ilog2 x \<le> ilog2 y"
proof -
  have y: "0 < y" using assms by linarith
  have "(2::rat) powi (ilog2 x) < 2 powi (ilog2 y + 1)"
    using ilog2_bounds(1)[OF assms(1)] ilog2_bounds(2)[OF y] assms(2) by linarith
  then have "ilog2 x < ilog2 y + 1" by (rule powi2_mono_less)
  then show ?thesis by simp
qed

lemma fl_pos_bounds:
  assumes "0 < x"
  shows "2 powi (ilog2 x) \<le> fl x" "fl x \<le> 2 powi (ilog2 x + 1)"
proof -
  define e where "e = ilog2 x - 52"
  define m where "m = rne (x / 2 powi e)"
  have p: "(0::rat) < 2 powi e" by simp
  have s52: "of_int (2 ^ 52) * (2::rat) powi e = 2 powi (ilog2 x)"
  proof -
    have "(2::rat) powi (52 + e) = 2 powi 52 * 2 powi e" by (rule power_int_add) simp
    moreover have "52 + e = ilog2 x" by (simp add: e_def)
    ultimately show ?thesis by simp
  qed
  have s53: "of_int (2 ^ 53) * (2::rat) powi e = 2 powi (ilog2 x + 1)"
  proof -
    have "(2::rat) powi (53 + e) = 2 powi 53 * 2 powi e" by (rule power_int_add) simp
    moreover have "53 + e = ilog2 x + 1" by (simp add: e_def)
    ultimately show ?thesis by simp
  qed
  have lo: "of_int (2 ^ 52) \<le> x / 2 powi e"
    using ilog2_bounds(1)[OF assms] p unfolding s52[symmetric] by (simp add: pos_le_divide_eq)
  have hi: "x / 2 powi e \<le> of_int (2 ^ 53)"
    using ilog2_bounds(2)[OF assms] p unfolding s53[symmetric] by (simp add: pos_divide_le_eq)
  have r1: "2 ^ 52 \<le> m"
    unfolding m_def using rne_mono[OF lo] by (simp only: rne_of_int)
  have r2: "m \<le> 2 ^ 53"
    unfolding m_def using rne_mono[OF hi] by (simp only: rne_of_int)
  have flx: "fl x = of_int m * 2 powi e"
    using assms by (simp add: fl_def Let_def e_def m_def)
  have q1: "(of_int (2 ^ 52) :: rat) \<le> of_int m" using r1 by (simp only: of_int_le_iff)
  have q2: "(of_int m :: rat) \<le> of_int (2 ^ 53)" using r2 by (simp only: of_int_le_iff)
  have "of_int (2 ^ 52) * (2::rat) powi e \<le> of_int m * 2 powi e"
    using q1 p by (intro mult_right_mono) linarith+
  then show "2 powi (ilog2 x) \<le> fl x" unfolding flx s52 .
  have "of_int m * (2::rat) powi e \<le> of_int (2 ^ 53) * 2 powi e"
    using q2 p by (intro mult_right_mono) linarith+
  then show "fl x \<le> 2 powi (ilog2 x + 1)" unfolding flx s53 .
qed

lemma fl_mono_pos:
  assumes "0 < x" "x \<le> y"
  shows "fl x \<le> fl y"
proof (cases "ilog2 x = ilog2 y")
  case True
  have y: "0 < y" using assms by linarith
  define e where "e = ilog2 x - 52"
  have "x / 2 powi e \<le> y / 2 powi e" using assms(2) by (simp add: divide_right_mono)
  then have "rne (x / 2 powi e) \<le> rne (y / 2 powi e)" by (rule rne_mono)
  then have "(of_int (rne (x / 2 powi e)) :: rat) * 2 powi e \<le> of_int (rne (y / 2 powi e)) * 2 powi e"
    by (intro mult_right_mono) simp_all
  then show ?thesis using assms y True by (simp add: fl_def Let_def e_def)
next
  case False
  have y: "0 < y" using assms by linarith
  have "ilog2 x + 1 \<le> ilog2 y" using ilog2_mono[OF assms] False by simp
  then have "(2::rat) powi (ilog2 x + 1) \<le> 2 powi (ilog2 y)"
    by (intro power_int_increasing) simp_all
  then show ?thesis using fl_pos_bounds(2)[OF assms(1)] fl_pos_bounds(1)[OF y] by linarith
qed

lemma fl_mono:
  assumes "x \<le> y"
  shows "fl x \<le> fl y"
proof -
  consider "0 < x" | "x \<le> 0" "0 \<le> y" | "y < 0" using assms by linarith
  then show ?thesis
  proof cases
    case 1
    then show ?thesis using assms by (rule fl_mono_pos)
  next
    case 2
    have "0 \<le> fl (- x)" using 2(1) by (intro fl_nonneg) simp
    then have "fl x \<le> 0" by (simp add: fl_uminus)
    moreover have "0 \<le> fl y" using 2(2) by (rule fl_nonneg)
    ultimately show ?thesis by linarith
  next
    case 3
    have "fl (- y) \<le> fl (- x)" using 3 assms by (intro fl_mono_pos) simp_all
    then show ?thesis by (simp add: fl_uminus)
  qed
qed

lemma footprint_mono: "exact_area a \<le> exact_area b \<Longrightarrow> footprint a \<le> footprint b"
  unfolding exact_area_def footprint_def fmul_def by (rule fl_mono)

lemma descending_exact_area:
  assumes "sorted_wrt (\<lambda>a b. footprint b \<le> footprint a) xs"
  shows "sorted_wrt (\<lambda>a b. footprint a = footprint b \<or> exact_area b < exact_area a) xs"
proof (rule sorted_wrt_mono_rel[OF _ assms])
  fix a b
  assume le: "footprint b \<le> footprint a"
  show "footprint a = footprint b \<or> exact_area b < exact_area a"
  proof (cases "exact_area a \<le> exact_area b")
    case True
    then have "footprint a \<le> footprint b" by (rule footprint_mono)
    then show ?thesis using le by simp
  next
    case False
    then show ?thesis by simp
  qed
qed

lemma grid_units_nonneg: "0 \<le> d \<Longrightarrow> 0 \<le> grid_units d"
  by (simp add: grid_units_def py_int_def fdiv_def grid_size_half fl_nonneg)

lemma grid_units_double: "is_double d \<Longrightarrow> grid_units d = py_int (2 * d)"
  using fl_div_half[of d]
  by (simp add: grid_units_def fdiv_def grid_size_half is_double_def mult.commute)

lemma grid_units_small:
  assumes "is_double d" "0 \<le> d" "d < 1 / 2"
  shows "grid_units d = 0"
  using assms by (simp add: grid_units_double py_int_def floor_eq_iff)

lemma slice_bound_le: "slice_bound n i \<le> n"
  by (auto simp: slice_bound_def)

lemma block_in_range:
  assumes "(r, c) \<in> set (block sh y iw x il)"
  shows "r < fst sh \<and> c < snd sh"
  using assms slice_bound_le[of "fst sh" "y + iw"] slice_bound_le[of "snd sh" "x + il"]
  by (auto simp: block_def slice_indices_def)

lemma shape_assign_one [simp]: "shape (assign_one g cs) = shape g"
  by (simp add: assign_one_def)

lemma assign_one_cell:
  assumes "r < fst (shape g)" "c < snd (shape g)"
  shows "cells (assign_one g cs) ! r ! c \<longleftrightarrow> (r, c) \<in> set cs \<or> cells g ! r ! c"
  using assms by (simp add: assign_one_def)

lemma np_any_iff: "np_any g cs \<longleftrightarrow> (\<exists>(r, c) \<in> set cs. cells g ! r ! c)"
  by (simp add: np_any_def list_ex_iff)

lemma find_position_free:
  assumes "find_furniture_position g il iw gs = Some (x, y)"
  shows "\<not> np_any g (block (shape g) y iw x il)"
  using assms by (auto simp: find_furniture_position_def find_Some_iff)

lemma find_position_scanned:
  assumes "find_furniture_position g il iw gs = Some (x, y)"
  shows "(x, y) \<in> set (scan_positions (shape g) il iw)"
  using assms unfolding find_furniture_position_def find_Some_iff
  by (metis nth_mem)


lemma place_item_cases:
  "place_item item (g, pl) = (g, pl)
   \<or> (\<exists>x y. find_furniture_position g (grid_units (dim_length (dimensions item)))
                 (grid_units (dim_width (dimensions item))) grid_size = Some (x, y)
            \<and> place_item item (g, pl)
                = (assign_one g (marked_cells (shape g) (item, (x, y))), pl @ [(item, (x, y))]))"
  by (auto simp: place_item_def marked_cells_def Let_def split: option.splits)

lemma place_item_invariant:
  assumes sh: "shape g = sh"
    and occ: "\<forall>r c. r < fst sh \<longrightarrow> c < snd sh \<longrightarrow>
                (cells g ! r ! c \<longleftrightarrow> (\<exists>p \<in> set pl. (r, c) \<in> set (marked_cells sh p)))"
    and disj: "sorted_wrt (\<lambda>p q. set (marked_cells sh p) \<inter> set (marked_cells sh q) = {}) pl"
    and step: "place_item item (g, pl) = (g', pl')"
  shows "shape g' = sh
    \<and> (\<forall>r c. r < fst sh \<longrightarrow> c < snd sh \<longrightarrow>
          (cells g' ! r ! c \<longleftrightarrow> (\<exists>p \<in> set pl'. (r, c) \<in> set (marked_cells sh p))))
    \<and> sorted_wrt (\<lambda>p q. set (marked_cells sh p) \<inter> set (marked_cells sh q) = {}) pl'"
proof -
  consider (skip) "g' = g" "pl' = pl"
    | (put) x y where
        "find_furniture_position g (grid_units (dim_length (dimensions item)))
            (grid_units (dim_width (dimensions item))) grid_size = Some (x, y)"
        "g' = assign_one g (marked_cells sh (item, (x, y)))" "pl' = pl @ [(item, (x, y))]"
    using place_item_cases[of item g pl] step sh by auto
  then show ?thesis
  proof cases
    case skip
    then show ?thesis using sh occ disj by simp
  next
    case put
    define blk where "blk = marked_cells sh (item, (x, y))"
    have blk: "blk = block (shape g) y (grid_units (dim_width (dimensions item)))
                       x (grid_units (dim_length (dimensions item)))"
      by (simp add: blk_def marked_cells_def sh)
    have free: "\<not> np_any g blk"
      unfolding blk by (rule find_position_free[OF put(1)])
    have range: "r < fst sh \<and> c < snd sh" if "(r, c) \<in> set blk" for r c
      using that block_in_range[of r c "shape g"] unfolding blk sh by blast
    have fresh: "set (marked_cells sh p) \<inter> set blk = {}" if p: "p \<in> set pl" for p
    proof -
      have False if a: "(r, c) \<in> set (marked_cells sh p)" and b: "(r, c) \<in> set blk" for r c
      proof -
        have "cells g ! r ! c" using occ range[OF b] a p by blast
        then show False using free b by (auto simp: np_any_iff)
      qed
      then show ?thesis by auto
    qed
    have 1: "shape g' = sh" by (simp add: put(2) sh)
    have 2: "cells g' ! r ! c \<longleftrightarrow> (\<exists>p \<in> set pl'. (r, c) \<in> set (marked_cells sh p))"
      if "r < fst sh" "c < snd sh" for r c
      using that occ by (auto simp: put(2,3) assign_one_cell sh blk_def)
    have 3: "sorted_wrt (\<lambda>p q. set (marked_cells sh p) \<inter> set (marked_cells sh q) = {}) pl'"
      using disj fresh by (simp add: put(3) sorted_wrt_append blk_def)
    show ?thesis using 1 2 3 by blast
  qed
qed

lemma fold_place_item_invariant:
  assumes "shape g = sh"
    and "\<forall>r c. r < fst sh \<longrightarrow> c < snd sh \<longrightarrow>
                (cells g ! r ! c \<longleftrightarrow> (\<exists>p \<in> set pl. (r, c) \<in> set (marked_cells sh p)))"
    and "sorted_wrt (\<lambda>p q. set (marked_cells sh p) \<inter> set (marked_cells sh q) = {}) pl"
    and "fold place_item items (g, pl) = (g', pl')"
  shows "shape g' = sh
    \<and> (\<forall>r c. r < fst sh \<longrightarrow> c < snd sh \<longrightarrow>
          (cells g' ! r ! c \<longleftrightarrow> (\<exists>p \<in> set pl'. (r, c) \<in> set (marked_cells sh p))))
    \<and> sorted_wrt (\<lambda>p q. set (marked_cells sh p) \<inter> set (marked_cells sh q) = {}) pl'"
  using assms
proof (induction items arbitrary: g pl)
  case Nil
  then show ?case by simp
next
  case (Cons item items)
  obtain g1 pl1 where s: "place_item item (g, pl) = (g1, pl1)" by (cases "place_item item (g, pl)")
  note i = place_item_invariant[OF Cons.prems(1,2,3) s]
  have f: "fold place_item items (g1, pl1) = (g', pl')" using Cons.prems(4) s by simp
  show ?case using Cons.IH[OF _ _ _ f] i by blast
qed

lemma np_zeros_cell:
  "r < fst sh \<Longrightarrow> c < snd sh \<Longrightarrow> \<not> cells (np_zeros sh) ! r ! c"
  by (simp add: np_zeros_def)

lemma placements_total:
  assumes "0 < room_length" "0 < room_width"
  shows "placements furniture_in room_length room_width
           = Inr (snd (fold place_item (sorted_reverse footprint furniture_in)
                         (np_zeros (grid_shape room_length room_width), [])))"
  using grid_units_nonneg[of room_length] grid_units_nonneg[of room_width] assms
  by (simp add: placements_def grid_shape_def Let_def)

text \<open>
  Claim C1. For every furniture list and every positive room length and width the
  placement engine returns without error, and any two items it places were given
  disjoint blocks of the occupancy grid: the cells set to 1 for one placed item and
  the cells set to 1 for another never have a cell in common.
\<close>

theorem placed_blocks_disjoint:
  assumes "0 < room_length" "0 < room_width"
  shows "\<exists>pls. placements furniture_in room_length room_width = Inr pls
     \<and> position_furniture furniture_in room_length room_width = Inr (map positioned pls)
     \<and> (\<forall>i j. i < j \<longrightarrow> j < length pls \<longrightarrow>
           set (marked_cells (grid_shape room_length room_width) (pls ! i))
           \<inter> set (marked_cells (grid_shape room_length room_width) (pls ! j)) = {})"
proof -
  define sh where "sh = grid_shape room_length room_width"
  obtain g pls where f: "fold place_item (sorted_reverse footprint furniture_in) (np_zeros sh, [])
      = (g, pls)" by (cases "fold place_item (sorted_reverse footprint furniture_in) (np_zeros sh, [])")
  have p: "placements furniture_in room_length room_width = Inr pls"
    using placements_total[OF assms, of furniture_in] f by (simp add: sh_def)
  have "sorted_wrt (\<lambda>p q. set (marked_cells sh p) \<inter> set (marked_cells sh q) = {}) pls"
    using fold_place_item_invariant[OF _ _ _ f, of sh] by (simp add: np_zeros_def np_zeros_cell)
  then have "\<forall>i j. i < j \<longrightarrow> j < length pls \<longrightarrow>
           set (marked_cells sh (pls ! i)) \<inter> set (marked_cells sh (pls ! j)) = {}"
    by (simp add: sorted_wrt_iff_nth_less)
  then show ?thesis using p by (auto simp: position_furniture_def sh_def)
qed

lemma sofa_and_table_placed:
  "placements
     [\<lparr>item_type = ''coffee_table'', price = 240, item_style = ''Modern'',
        dimensions = \<lparr>dim_length = 1, dim_width = 1 / 2\<rparr>\<rparr>,
      \<lparr>item_type = ''sofa'', price = 1200, item_style = ''Modern'',
        dimensions = \<lparr>dim_length = 2, dim_width = 1\<rparr>\<rparr>] 3 2
   = Inr [(\<lparr>item_type = ''sofa'', price = 1200, item_style = ''Modern'',
             dimensions = \<lparr>dim_length = 2, dim_width = 1\<rparr>\<rparr>, (0, 0)),
          (\<lparr>item_type = ''coffee_table'', price = 240, item_style = ''Modern'',
             dimensions = \<lparr>dim_length = 1, dim_width = 1 / 2\<rparr>\<rparr>, (4, 0))]"
  by code_simp

lemma sofa_cells:
  "marked_cells (grid_shape 3 2)
     (\<lparr>item_type = ''sofa'', price = 1200, item_style = ''Modern'',
        dimensions = \<lparr>dim_length = 2, dim_width = 1\<rparr>\<rparr>, (0, 0))
   = [(0, 0), (0, 1), (0, 2), (0, 3), (1, 0), (1, 1), (1, 2), (1, 3)]"
  by code_simp

theorem placed_blocks_disjoint_witness:
  "(0 :: rat) < 3 \<and> (0 :: rat) < 2
   \<and> placements
     [\<lparr>item_type = ''coffee_table'', price = 240, item_style = ''Modern'',
        dimensions = \<lparr>dim_length = 1, dim_width = 1 / 2\<rparr>\<rparr>,
      \<lparr>item_type = ''sofa'', price = 1200, item_style = ''Modern'',
        dimensions = \<lparr>dim_length = 2, dim_width = 1\<rparr>\<rparr>] 3 2
   = Inr [(\<lparr>item_type = ''sofa'', price = 1200, item_style = ''Modern'',
             dimensions = \<lparr>dim_length = 2, dim_width = 1\<rparr>\<rparr>, (0, 0)),
          (\<lparr>item_type = ''coffee_table'', price = 240, item_style = ''Modern'',
             dimensions = \<lparr>dim_length = 1, dim_width = 1 / 2\<rparr>\<rparr>, (4, 0))]
   \<and> marked_cells (grid_shape 3 2)
     (\<lparr>item_type = ''sofa'', price = 1200, item_style = ''Modern'',
        dimensions = \<lparr>dim_length = 2, dim_width = 1\<rparr>\<rparr>, (0, 0))
     = [(0, 0), (0, 1), (0, 2), (0, 3), (1, 0), (1, 1), (1, 2), (1, 3)]
   \<and> set (marked_cells (grid_shape 3 2)
          (\<lparr>item_type = ''sofa'', price = 1200, item_style = ''Modern'',
             dimensions = \<lparr>dim_length = 2, dim_width = 1\<rparr>\<rparr>, (0, 0)))
     \<inter> set (marked_cells (grid_shape 3 2)
          (\<lparr>item_type = ''coffee_table'', price = 240, item_style = ''Modern'',
             dimensions = \<lparr>dim_length = 1, dim_width = 1 / 2\<rparr>\<rparr>, (4, 0))) = {}"
proof -
  define furn where "furn =
     [\<lparr>item_type = ''coffee_table'', price = 240, item_style = ''Modern'',
        dimensions = \<lparr>dim_length = 1, dim_width = 1 / 2\<rparr>\<rparr>,
      \<lparr>item_type = ''sofa'', price = 1200, item_style = ''Modern'',
        dimensions = \<lparr>dim_length = 2, dim_width = 1\<rparr>\<rparr>]"
  define p0 where "p0 = (\<lparr>item_type = ''sofa'', price = 1200, item_style = ''Modern'',
             dimensions = \<lparr>dim_length = 2, dim_width = 1\<rparr>\<rparr>, (0 :: int, 0 :: int))"
  define p1 where "p1 = (\<lparr>item_type = ''coffee_table'', price = 240, item_style = ''Modern'',
             dimensions = \<lparr>dim_length = 1, dim_width = 1 / 2\<rparr>\<rparr>, (4 :: int, 0 :: int))"
  have e: "placements furn 3 2 = Inr [p0, p1]"
    unfolding furn_def p0_def p1_def by (rule sofa_and_table_placed)
  have pos: "(0 :: rat) < 3" "(0 :: rat) < 2" by simp_all
  from placed_blocks_disjoint[OF pos, of furn] e
  have d: "\<forall>i j. i < j \<longrightarrow> j < length [p0, p1] \<longrightarrow>
           set (marked_cells (grid_shape 3 2) ([p0, p1] ! i))
           \<inter> set (marked_cells (grid_shape 3 2) ([p0, p1] ! j)) = {}"
    by auto
  have "set (marked_cells (grid_shape 3 2) p0) \<inter> set (marked_cells (grid_shape 3 2) p1) = {}"
    using d[rule_format, of 0 1] by simp
  then show ?thesis
    using e sofa_cells pos unfolding furn_def p0_def p1_def by blast
qed


lemma sorted_reverse_descending:
  "sorted_wrt (\<lambda>a b. key b \<le> key a) (sorted_reverse key xs)"
proof -
  have "sorted (map key (sort_key key (rev xs)))" by (rule sorted_sort_key)
  then have "sorted_wrt (\<lambda>a b. key a \<le> key b) (sort_key key (rev xs))"
    by (simp add: sorted_wrt_map)
  then show ?thesis by (simp add: sorted_reverse_def sorted_wrt_rev)
qed

lemma sorted_reverse_stable:
  "filter (\<lambda>x. key x = k) (sorted_reverse key xs) = filter (\<lambda>x. key x = k) xs"
proof -
  have "filter (\<lambda>x. key x = k) (sorted_reverse key xs)
          = rev (filter (\<lambda>x. key x = k) (sort_key key (rev xs)))"
    by (simp add: sorted_reverse_def rev_filter)
  also have "\<dots> = rev (filter (\<lambda>x. key x = k) (rev xs))"
    by (simp only: sort_key_stable)
  also have "\<dots> = filter (\<lambda>x. key x = k) xs"
    by (simp add: rev_filter)
  finally show ?thesis .
qed

lemma set_sorted_reverse [simp]: "set (sorted_reverse key xs) = set xs"
  by (simp add: sorted_reverse_def)

lemma length_sorted_reverse [simp]: "length (sorted_reverse key xs) = length xs"
  by (simp add: sorted_reverse_def)

lemma fold_place_item_subseq:
  assumes "fold place_item items (g, pl) = (g', pl')"
  shows "\<exists>ys. pl' = pl @ ys \<and> subseq (map fst ys) items"
  using assms
proof (induction items arbitrary: g pl)
  case Nil
  then show ?case by simp
next
  case (Cons item items)
  obtain g1 pl1 where s: "place_item item (g, pl) = (g1, pl1)" by (cases "place_item item (g, pl)")
  have f: "fold place_item items (g1, pl1) = (g', pl')" using Cons.prems s by simp
  from Cons.IH[OF f] obtain ys where ys: "pl' = pl1 @ ys" "subseq (map fst ys) items" by blast
  from place_item_cases[of item g pl] s
  consider "pl1 = pl" | x y where "pl1 = pl @ [(item, (x, y))]" by auto
  then show ?case
  proof cases
    case 1
    then show ?thesis using ys by auto
  next
    case 2
    then have "pl' = pl @ ((item, (x, y)) # ys)" using ys by simp
    moreover have "subseq (map fst ((item, (x, y)) # ys)) (item # items)" using ys(2) by simp
    ultimately show ?thesis by blast
  qed
qed

lemma sorted_wrt_subseq:
  "subseq xs ys \<Longrightarrow> sorted_wrt P ys \<Longrightarrow> sorted_wrt P xs"
proof (induction rule: list_emb.induct)
  case (list_emb_Cons2 x y xs ys)
  then show ?case using subseq_set[of xs ys] by auto
qed auto

text \<open>
  Claim C6. For every input furniture list the placement engine works through the
  items in order of descending footprint area (the product length * width as the
  program computes it), and items of equal area keep their original relative order:
  the sorted list is descending, for every area the items of that area appear in it
  as they do in the input, and the placed items are recorded in the order of that
  list, so they too are in descending order of area. Rounding the product to
  binary64 does not disturb the order: of two items whose computed areas differ,
  the one processed first has the strictly larger exact product.
\<close>

theorem placement_order:
  "sorted_wrt (\<lambda>a b. footprint b \<le> footprint a) (sorted_reverse footprint furniture_in)
   \<and> sorted_wrt (\<lambda>a b. footprint a = footprint b \<or> exact_area b < exact_area a)
        (sorted_reverse footprint furniture_in)
   \<and> (\<forall>k. filter (\<lambda>x. footprint x = k) (sorted_reverse footprint furniture_in)
            = filter (\<lambda>x. footprint x = k) furniture_in)
   \<and> (placements furniture_in room_length room_width = Inr pls \<longrightarrow>
        pls = snd (fold place_item (sorted_reverse footprint furniture_in)
                     (np_zeros (grid_shape room_length room_width), []))
        \<and> subseq (map fst pls) (sorted_reverse footprint furniture_in)
        \<and> sorted_wrt (\<lambda>a b. footprint b \<le> footprint a) (map fst pls))"
proof -
  have 1: "sorted_wrt (\<lambda>a b. footprint b \<le> footprint a) (sorted_reverse footprint furniture_in)"
    by (rule sorted_reverse_descending)
  have ex: "sorted_wrt (\<lambda>a b. footprint a = footprint b \<or> exact_area b < exact_area a)
              (sorted_reverse footprint furniture_in)"
    using 1 by (rule descending_exact_area)
  have 2: "\<forall>k. filter (\<lambda>x. footprint x = k) (sorted_reverse footprint furniture_in)
            = filter (\<lambda>x. footprint x = k) furniture_in"
    by (simp add: sorted_reverse_stable)
  have 3: "pls = snd (fold place_item (sorted_reverse footprint furniture_in)
                     (np_zeros (grid_shape room_length room_width), []))
        \<and> subseq (map fst pls) (sorted_reverse footprint furniture_in)
        \<and> sorted_wrt (\<lambda>a b. footprint b \<le> footprint a) (map fst pls)"
    if p: "placements furniture_in room_length room_width = Inr pls"
  proof -
    define st where "st = fold place_item (sorted_reverse footprint furniture_in)
                     (np_zeros (grid_shape room_length room_width), [])"
    have e: "pls = snd st"
      using p unfolding placements_def grid_shape_def st_def Let_def
      by (auto split: if_splits)
    obtain g where g: "st = (g, pls)" using e by (cases st) simp
    from fold_place_item_subseq[OF g[unfolded st_def]]
    have s: "subseq (map fst pls) (sorted_reverse footprint furniture_in)" by simp
    from sorted_wrt_subseq[OF s 1] e show ?thesis using s unfolding st_def by simp
  qed
  show ?thesis using 1 ex 2 3 by blast
qed

lemma three_items_placed:
  "placements
     [\<lparr>item_type = ''coffee_table'', price = 240, item_style = ''Modern'',
        dimensions = \<lparr>dim_length = 1, dim_width = 1 / 2\<rparr>\<rparr>,
      \<lparr>item_type = ''sofa'', price = 1200, item_style = ''Modern'',
        dimensions = \<lparr>dim_length = 2, dim_width = 1\<rparr>\<rparr>,
      \<lparr>item_type = ''stool'', price = 300, item_style = ''Modern'',
        dimensions = \<lparr>dim_length = 1 / 2, dim_width = 1\<rparr>\<rparr>] 3 2
   = Inr [(\<lparr>item_type = ''sofa'', price = 1200, item_style = ''Modern'',
             dimensions = \<lparr>dim_length = 2, dim_width = 1\<rparr>\<rparr>, (0, 0)),
          (\<lparr>item_type = ''coffee_table'', price = 240, item_style = ''Modern'',
             dimensions = \<lparr>dim_length = 1, dim_width = 1 / 2\<rparr>\<rparr>, (4, 0)),
          (\<lparr>item_type = ''stool'', price = 300, item_style = ''Modern'',
             dimensions = \<lparr>dim_length = 1 / 2, dim_width = 1\<rparr>\<rparr>, (4, 1))]"
  by code_simp

lemma three_items_sorted:
  "sorted_reverse footprint
     [\<lparr>item_type = ''coffee_table'', price = 240, item_style = ''Modern'',
        dimensions = \<lparr>dim_length = 1, dim_width = 1 / 2\<rparr>\<rparr>,
      \<lparr>item_type = ''sofa'', price = 1200, item_style = ''Modern'',
        dimensions = \<lparr>dim_length = 2, dim_width = 1\<rparr>\<rparr>,
      \<lparr>item_type = ''stool'', price = 300, item_style = ''Modern'',
        dimensions = \<lparr>dim_length = 1 / 2, dim_width = 1\<rparr>\<rparr>]
   = [\<lparr>item_type = ''sofa'', price = 1200, item_style = ''Modern'',
        dimensions = \<lparr>dim_length = 2, dim_width = 1\<rparr>\<rparr>,
      \<lparr>item_type = ''coffee_table'', price = 240, item_style = ''Modern'',
        dimensions = \<lparr>dim_length = 1, dim_width = 1 / 2\<rparr>\<rparr>,
      \<lparr>item_type = ''stool'', price = 300, item_style = ''Modern'',
        dimensions = \<lparr>dim_length = 1 / 2, dim_width = 1\<rparr>\<rparr>]"
  by code_simp

theorem placement_order_witness:
  "placements
     [\<lparr>item_type = ''coffee_table'', price = 240, item_style = ''Modern'',
        dimensions = \<lparr>dim_length = 1, dim_width = 1 / 2\<rparr>\<rparr>,
      \<lparr>item_type = ''sofa'', price = 1200, item_style = ''Modern'',
        dimensions = \<lparr>dim_length = 2, dim_width = 1\<rparr>\<rparr>,
      \<lparr>item_type = ''stool'', price = 300, item_style = ''Modern'',
        dimensions = \<lparr>dim_length = 1 / 2, dim_width = 1\<rparr>\<rparr>] 3 2
   = Inr [(\<lparr>item_type = ''sofa'', price = 1200, item_style = ''Modern'',
             dimensions = \<lparr>dim_length = 2, dim_width = 1\<rparr>\<rparr>, (0, 0)),
          (\<lparr>item_type = ''coffee_table'', price = 240, item_style = ''Modern'',
             dimensions = \<lparr>dim_length = 1, dim_width = 1 / 2\<rparr>\<rparr>, (4, 0)),
          (\<lparr>item_type = ''stool'', price = 300, item_style = ''Modern'',
             dimensions = \<lparr>dim_length = 1 / 2, dim_width = 1\<rparr>\<rparr>, (4, 1))]
   \<and> sorted_wrt (\<lambda>a b. footprint b \<le> footprint a)
       [\<lparr>item_type = ''sofa'', price = 1200, item_style = ''Modern'',
          dimensions = \<lparr>dim_length = 2, dim_width = 1\<rparr>\<rparr>,
        \<lparr>item_type = ''coffee_table'', price = 240, item_style = ''Modern'',
          dimensions = \<lparr>dim_length = 1, dim_width = 1 / 2\<rparr>\<rparr>,
        \<lparr>item_type = ''stool'', price = 300, item_style = ''Modern'',
          dimensions = \<lparr>dim_length = 1 / 2, dim_width = 1\<rparr>\<rparr>]
   \<and> sorted_reverse footprint
     [\<lparr>item_type = ''coffee_table'', price = 240, item_style = ''Modern'',
        dimensions = \<lparr>dim_length = 1, dim_width = 1 / 2\<rparr>\<rparr>,
      \<lparr>item_type = ''sofa'', price = 1200, item_style = ''Modern'',
        dimensions = \<lparr>dim_length = 2, dim_width = 1\<rparr>\<rparr>,
      \<lparr>item_type = ''stool'', price = 300, item_style = ''Modern'',
        dimensions = \<lparr>dim_length = 1 / 2, dim_width = 1\<rparr>\<rparr>]
   = [\<lparr>item_type = ''sofa'', price = 1200, item_style = ''Modern'',
        dimensions = \<lparr>dim_length = 2, dim_width = 1\<rparr>\<rparr>,
      \<lparr>item_type = ''coffee_table'', price = 240, item_style = ''Modern'',
        dimensions = \<lparr>dim_length = 1, dim_width = 1 / 2\<rparr>\<rparr>,
      \<lparr>item_type = ''stool'', price = 300, item_style = ''Modern'',
        dimensions = \<lparr>dim_length = 1 / 2, dim_width = 1\<rparr>\<rparr>]"
proof -
  define furn where "furn =
     [\<lparr>item_type = ''coffee_table'', price = 240, item_style = ''Modern'',
        dimensions = \<lparr>dim_length = 1, dim_width = 1 / 2\<rparr>\<rparr>,
      \<lparr>item_type = ''sofa'', price = 1200, item_style = ''Modern'',
        dimensions = \<lparr>dim_length = 2, dim_width = 1\<rparr>\<rparr>,
      \<lparr>item_type = ''stool'', price = 300, item_style = ''Modern'',
        dimensions = \<lparr>dim_length = 1 / 2, dim_width = 1\<rparr>\<rparr>]"
  define pls where "pls =
         [(\<lparr>item_type = ''sofa'', price = 1200, item_style = ''Modern'',
             dimensions = \<lparr>dim_length = 2, dim_width = 1\<rparr>\<rparr>, (0 :: int, 0 :: int)),
          (\<lparr>item_type = ''coffee_table'', price = 240, item_style = ''Modern'',
             dimensions = \<lparr>dim_length = 1, dim_width = 1 / 2\<rparr>\<rparr>, (4, 0)),
          (\<lparr>item_type = ''stool'', price = 300, item_style = ''Modern'',
             dimensions = \<lparr>dim_length = 1 / 2, dim_width = 1\<rparr>\<rparr>, (4, 1))]"
  have e: "placements furn 3 2 = Inr pls"
    unfolding furn_def pls_def by (rule three_items_placed)
  from placement_order[of furn 3 2 pls] e
  have "sorted_wrt (\<lambda>a b. footprint b \<le> footprint a) (map fst pls)" by blast
  then show ?thesis using e three_items_sorted unfolding furn_def pls_def by simp
qed

lemma py_range_pos: "1 \<le> n \<Longrightarrow> py_range n = 0 # [1..n - 1]"
  by (simp add: py_range_def upto_rec1)

lemma scan_positions_head:
  assumes "il \<le> int (snd sh)" "iw \<le> int (fst sh)"
  shows "\<exists>rest. scan_positions sh il iw = (0, 0) # rest"
proof -
  obtain h w where sh: "sh = (h, w)" by (cases sh)
  have a: "1 \<le> int w - il + 1" and b: "1 \<le> int h - iw + 1" using assms sh by simp_all
  show ?thesis
    unfolding sh scan_positions_def by (simp add: py_range_pos[OF a] py_range_pos[OF b])
qed

lemma slice_indices_empty [simp]: "slice_indices n i i = []"
  by (simp add: slice_indices_def)

lemma product_Nil2 [simp]: "List.product xs [] = []"
  by (induction xs) simp_all

lemma block_empty:
  "il = 0 \<or> iw = 0 \<Longrightarrow> block sh y iw x il = []"
  by (auto simp: block_def)

lemma np_any_Nil [simp]: "\<not> np_any g []"
  by (simp add: np_any_def)

lemma find_zero_block:
  assumes "il = 0 \<or> iw = 0" "il \<le> int (snd (shape g))" "iw \<le> int (fst (shape g))"
  shows "find_furniture_position g il iw gs = Some (0, 0)"
proof -
  from scan_positions_head[OF assms(2,3)] obtain rest
    where r: "scan_positions (shape g) il iw = (0, 0) # rest" by blast
  show ?thesis
    unfolding find_furniture_position_def r using block_empty[OF assms(1)] by simp
qed

text \<open>
  Claim C7, amended. An item with a length or a width below the grid size 0.5 has a
  cell count of 0 in that dimension. If its cell counts do not exceed the grid in either
  dimension, the scan starts at (0, 0), the empty block there holds no 1 whatever the
  grid contains, and the item is placed at (0, 0); no cell is marked for it and every
  cell of the grid keeps its value.
\<close>

theorem small_item_placed_at_origin:
  assumes dbl: "is_double (dim_length (dimensions item))" "is_double (dim_width (dimensions item))"
    and nonneg: "0 \<le> dim_length (dimensions item)" "0 \<le> dim_width (dimensions item)"
    and small: "dim_length (dimensions item) < grid_size \<or> dim_width (dimensions item) < grid_size"
    and fits: "grid_units (dim_length (dimensions item)) \<le> int (snd (shape g))"
              "grid_units (dim_width (dimensions item)) \<le> int (fst (shape g))"
  shows "(dim_length (dimensions item) < grid_size \<longrightarrow>
            grid_units (dim_length (dimensions item)) = 0)
     \<and> (dim_width (dimensions item) < grid_size \<longrightarrow>
            grid_units (dim_width (dimensions item)) = 0)
     \<and> find_furniture_position g (grid_units (dim_length (dimensions item)))
            (grid_units (dim_width (dimensions item))) grid_size = Some (0, 0)
     \<and> marked_cells (shape g) (item, (0, 0)) = []
     \<and> place_item item (g, placed) = (assign_one g [], placed @ [(item, (0, 0))])
     \<and> (\<forall>r c. r < fst (shape g) \<longrightarrow> c < snd (shape g) \<longrightarrow>
            cells (assign_one g []) ! r ! c = cells g ! r ! c)"
proof -
  define il where "il = grid_units (dim_length (dimensions item))"
  define iw where "iw = grid_units (dim_width (dimensions item))"
  have l0: "il = 0" if "dim_length (dimensions item) < grid_size"
    unfolding il_def using that dbl(1) nonneg(1) by (intro grid_units_small) (simp_all add: grid_size_half)
  have w0: "iw = 0" if "dim_width (dimensions item) < grid_size"
    unfolding iw_def using that dbl(2) nonneg(2) by (intro grid_units_small) (simp_all add: grid_size_half)
  have z: "il = 0 \<or> iw = 0" using small l0 w0 by blast
  have f: "find_furniture_position g il iw grid_size = Some (0, 0)"
    using z fits unfolding il_def iw_def by (rule find_zero_block)
  have m: "marked_cells (shape g) (item, (0, 0)) = []"
    using block_empty[OF z] by (simp add: marked_cells_def il_def iw_def)
  have p: "place_item item (g, placed) = (assign_one g [], placed @ [(item, (0, 0))])"
    using f block_empty[OF z] by (simp add: place_item_def Let_def il_def iw_def)
  have c: "\<forall>r c. r < fst (shape g) \<longrightarrow> c < snd (shape g) \<longrightarrow>
            cells (assign_one g []) ! r ! c = cells g ! r ! c"
    by (simp add: assign_one_cell)
  show ?thesis using l0 w0 f m p c unfolding il_def iw_def by blast
qed

lemma nightstand_on_sofa:
  "find_furniture_position
     (assign_one (np_zeros (4, 6)) (block (4, 6) 0 2 0 4)) 0 0 grid_size = Some (0, 0)
   \<and> cells (assign_one (np_zeros (4, 6)) (block (4, 6) 0 2 0 4)) ! 0 ! 0"
  by code_simp

lemma lit_0_4: "fl (2 / 5) = 3602879701896397 / 9007199254740992"
  by code_simp

lemma double_0_4: "is_double (3602879701896397 / 9007199254740992)"
  by code_simp

lemma lit_4_5: "fl (9 / 2) = 9 / 2"
  by code_simp

theorem small_item_placed_at_origin_witness:
  "is_double (fl (4 / 10)) \<and> 0 \<le> fl (4 / 10) \<and> fl (4 / 10) < grid_size
   \<and> grid_units (fl (4 / 10)) = 0
   \<and> find_furniture_position (assign_one (np_zeros (4, 6)) (block (4, 6) 0 2 0 4))
        0 0 grid_size = Some (0, 0)
   \<and> cells (assign_one (np_zeros (4, 6)) (block (4, 6) 0 2 0 4)) ! 0 ! 0
   \<and> place_item \<lparr>item_type = ''nightstand'', price = 120, item_style = ''Modern'',
                  dimensions = \<lparr>dim_length = fl (4 / 10), dim_width = fl (4 / 10)\<rparr>\<rparr>
        (assign_one (np_zeros (4, 6)) (block (4, 6) 0 2 0 4), [])
      = (assign_one (assign_one (np_zeros (4, 6)) (block (4, 6) 0 2 0 4)) [],
         [(\<lparr>item_type = ''nightstand'', price = 120, item_style = ''Modern'',
             dimensions = \<lparr>dim_length = fl (4 / 10), dim_width = fl (4 / 10)\<rparr>\<rparr>, (0, 0))])"
proof -
  define item where "item = \<lparr>item_type = ''nightstand'', price = 120, item_style = ''Modern'',
                  dimensions = \<lparr>dim_length = fl (4 / 10), dim_width = fl (4 / 10)\<rparr>\<rparr>"
  define g where "g = assign_one (np_zeros (4, 6)) (block (4, 6) 0 2 0 4)"
  have d: "is_double (fl (4 / 10))" by (simp add: lit_0_4 double_0_4)
  have n: "0 \<le> fl (4 / 10)" by (simp add: lit_0_4)
  have s: "fl (4 / 10) < grid_size" by (simp add: lit_0_4 grid_size_half)
  have u: "grid_units (fl (4 / 10)) = 0"
    using d n s by (intro grid_units_small) (simp_all add: grid_size_half)
  have sh: "shape g = (4, 6)" by (simp add: g_def np_zeros_def)
  note t = small_item_placed_at_origin[of item g "[]"]
  have "find_furniture_position g (grid_units (dim_length (dimensions item)))
            (grid_units (dim_width (dimensions item))) grid_size = Some (0, 0)
     \<and> place_item item (g, []) = (assign_one g [], [] @ [(item, (0, 0))])"
    using t d n s u sh by (simp add: item_def)
  then show ?thesis
    using d n s u nightstand_on_sofa unfolding item_def g_def by (simp add: u)
qed

text \<open>
  Without the condition on the other dimension the claim fails: a shelf of 0.4 by 4.5
  in a room of 5 by 4 has 0 columns and 9 rows, the grid has 8 rows, no position is
  scanned, and the shelf is dropped although cell (0, 0) is free.
\<close>

theorem long_shelf_not_placed:
  "is_double (fl (4 / 10)) \<and> is_double (fl (45 / 10))
   \<and> 0 \<le> fl (4 / 10) \<and> fl (4 / 10) < grid_size
   \<and> grid_units (fl (4 / 10)) = 0 \<and> grid_units (fl (45 / 10)) = 9
   \<and> grid_shape 5 4 = (8, 10)
   \<and> \<not> cells (np_zeros (grid_shape 5 4)) ! 0 ! 0
   \<and> find_furniture_position (np_zeros (grid_shape 5 4)) 0 9 grid_size = None
   \<and> placements [\<lparr>item_type = ''shelf'', price = 300, item_style = ''Modern'',
                    dimensions = \<lparr>dim_length = fl (4 / 10), dim_width = fl (45 / 10)\<rparr>\<rparr>] 5 4
       = Inr []"
  by code_simp

section \<open>The placement engine on the object store\<close>

lemma lookup_Some: "lookup st a = Some ob \<longleftrightarrow> a < length st \<and> st ! a = ob"
  by (auto simp: lookup_def)

lemma list_at_update [simp]:
  "out < length st \<Longrightarrow> list_at (st[out := PyList xs]) out = xs"
  by (simp add: list_at_def lookup_def)

lemma add_positioned_Inr:
  assumes "add_positioned st out a pos = Inr st3" "out < length st"
  shows "\<exists>it. a < length st \<and> st ! a = Item it
     \<and> st3 = (st @ [Item (it\<lparr>d_position := Some pos\<rparr>)])
                [out := PyList (list_at st out @ [length st])]"
  using assms
  by (auto simp: add_positioned_def dict_copy_def new_object_def set_position_def
        list_append_def lookup_def list_at_def nth_append
      split: sum.splits option.splits pyobj.splits prod.splits if_splits)

lemma add_positioned_frame:
  assumes "add_positioned st out a pos = Inr st3" "out < length st"
  shows "length st3 = Suc (length st)"
    and "\<And>b. b < length st \<Longrightarrow> b \<noteq> out \<Longrightarrow> st3 ! b = st ! b"
    and "list_at st3 out = list_at st out @ [length st]"
    and "\<exists>it. a < length st \<and> st ! a = Item it
            \<and> st3 ! length st = Item (it\<lparr>d_position := Some pos\<rparr>)"
proof -
  from add_positioned_Inr[OF assms] obtain it where
    it: "a < length st" "st ! a = Item it" and
    st3: "st3 = (st @ [Item (it\<lparr>d_position := Some pos\<rparr>)])
                [out := PyList (list_at st out @ [length st])]" by blast
  show "length st3 = Suc (length st)" by (simp add: st3)
  show "st3 ! b = st ! b" if "b < length st" "b \<noteq> out" for b
    using that by (simp add: st3 nth_append)
  show "list_at st3 out = list_at st out @ [length st]"
    using assms(2) by (simp add: st3)
  have "st3 ! length st = Item (it\<lparr>d_position := Some pos\<rparr>)"
    using assms(2) by (simp add: st3)
  then show "\<exists>it. a < length st \<and> st ! a = Item it
            \<and> st3 ! length st = Item (it\<lparr>d_position := Some pos\<rparr>)"
    using it by blast
qed

lemma place_all_Cons:
  assumes "place_all out (a # rest) (st, grid) = Inr r"
  shows "place_all out rest (st, grid) = Inr r
     \<or> (\<exists>pos st3 grid1. add_positioned st out a pos = Inr st3
            \<and> place_all out rest (st3, grid1) = Inr r)"
  using assms
  by (auto simp: Let_def split: sum.splits option.splits)


lemma place_all_frame:
  assumes "place_all out items (st, grid) = Inr (st', grid')"
    and "out < length st"
    and "\<forall>a \<in> set items. a < length st \<and> a \<noteq> out"
  shows "length st \<le> length st'
    \<and> (\<forall>a < length st. a \<noteq> out \<longrightarrow> st' ! a = st ! a)
    \<and> (\<exists>new. list_at st' out = list_at st out @ new
          \<and> (\<forall>b \<in> set new. length st \<le> b \<and> b < length st'
                \<and> (\<exists>a \<in> set items. \<exists>it pos. st ! a = Item it
                       \<and> st' ! b = Item (it\<lparr>d_position := Some pos\<rparr>))))"
  using assms
proof (induction items arbitrary: st grid)
  case Nil
  then show ?case by simp
next
  case (Cons a rest)
  have rest_ok: "\<forall>a \<in> set rest. a < length st \<and> a \<noteq> out" using Cons.prems(3) by simp
  from place_all_Cons[OF Cons.prems(1)]
  consider (skip) "place_all out rest (st, grid) = Inr (st', grid')"
    | (put) pos st3 grid1 where "add_positioned st out a pos = Inr st3"
        "place_all out rest (st3, grid1) = Inr (st', grid')"
    by blast
  then show ?case
  proof cases
    case skip
    from Cons.IH[OF skip Cons.prems(2) rest_ok] obtain new where
      n: "length st \<le> length st'" "\<forall>a < length st. a \<noteq> out \<longrightarrow> st' ! a = st ! a"
         "list_at st' out = list_at st out @ new"
         "\<forall>b \<in> set new. length st \<le> b \<and> b < length st'
                \<and> (\<exists>a \<in> set rest. \<exists>it pos. st ! a = Item it
                       \<and> st' ! b = Item (it\<lparr>d_position := Some pos\<rparr>))"
      by blast
    have "\<forall>b \<in> set new. length st \<le> b \<and> b < length st'
                \<and> (\<exists>a' \<in> set (a # rest). \<exists>it pos. st ! a' = Item it
                       \<and> st' ! b = Item (it\<lparr>d_position := Some pos\<rparr>))"
      using n(4) by auto
    with n(1,2,3) show ?thesis by blast
  next
    case put
    note f = add_positioned_frame[OF put(1) Cons.prems(2)]
    from f(4) obtain it where it: "a < length st" "st ! a = Item it"
      "st3 ! length st = Item (it\<lparr>d_position := Some pos\<rparr>)" by blast
    have out3: "out < length st3" using Cons.prems(2) f(1) by simp
    have rest3: "\<forall>a \<in> set rest. a < length st3 \<and> a \<noteq> out" using rest_ok f(1) by auto
    from Cons.IH[OF put(2) out3 rest3] obtain new where
      i1: "length st3 \<le> length st'" and
      i2: "\<forall>a < length st3. a \<noteq> out \<longrightarrow> st' ! a = st3 ! a" and
      i3: "list_at st' out = list_at st3 out @ new" and
      i4: "\<forall>b \<in> set new. length st3 \<le> b \<and> b < length st'
                \<and> (\<exists>a \<in> set rest. \<exists>it pos. st3 ! a = Item it
                       \<and> st' ! b = Item (it\<lparr>d_position := Some pos\<rparr>))"
      by blast
    have c1: "length st \<le> length st'" using i1 f(1) by simp
    have c2: "\<forall>b < length st. b \<noteq> out \<longrightarrow> st' ! b = st ! b"
      using i2 f(1,2) by simp
    have c3: "list_at st' out = list_at st out @ (length st # new)"
      using i3 f(3) by simp
    have c4: "length st \<le> b \<and> b < length st'
                \<and> (\<exists>a' \<in> set (a # rest). \<exists>it pos. st ! a' = Item it
                       \<and> st' ! b = Item (it\<lparr>d_position := Some pos\<rparr>))"
      if b: "b \<in> set (length st # new)" for b
    proof (cases "b = length st")
      case True
      have "st' ! length st = st3 ! length st"
        using i2 f(1) Cons.prems(2) by simp
      then have "st' ! b = Item (it\<lparr>d_position := Some pos\<rparr>)" using it(3) True by simp
      moreover have "b < length st'" using True i1 f(1) by simp
      moreover have "a \<in> set (a # rest)" by simp
      ultimately show ?thesis using True it(2) by blast
    next
      case False
      then have "b \<in> set new" using b by simp
      with i4 obtain a' it' pos' where
        a': "length st3 \<le> b" "b < length st'" "a' \<in> set rest" "st3 ! a' = Item it'"
        "st' ! b = Item (it'\<lparr>d_position := Some pos'\<rparr>)" by blast
      have "st3 ! a' = st ! a'" using rest_ok a'(3) f(2) by simp
      then have "st ! a' = Item it'" using a'(4) by simp
      moreover have "a' \<in> set (a # rest)" using a'(3) by simp
      moreover have "length st \<le> b" using a'(1) f(1) by simp
      ultimately show ?thesis using a'(2,5) by blast
    qed
    have "\<forall>b \<in> set (length st # new). length st \<le> b \<and> b < length st'
                \<and> (\<exists>a' \<in> set (a # rest). \<exists>it pos. st ! a' = Item it
                       \<and> st' ! b = Item (it\<lparr>d_position := Some pos\<rparr>))"
      using c4 by blast
    with c1 c2 c3 show ?thesis by blast
  qed
qed


lemma load_dimensions_Item:
  "load_dimensions st a = Inr d \<Longrightarrow> \<exists>it. a < length st \<and> st ! a = Item it"
  by (auto simp: load_dimensions_def lookup_def split: option.splits pyobj.splits if_splits)

lemma position_furniture_store_Inr:
  assumes "position_furniture_store st furniture_in room_length room_width = Inr (st', out)"
  shows "out = length st
     \<and> (\<forall>a \<in> set (list_at (st @ [PyList []]) furniture_in).
           \<not> isl (load_dimensions (st @ [PyList []]) a))
     \<and> (\<exists>grid grid'.
          place_all (length st)
            (sorted_reverse (key_at (st @ [PyList []])) (list_at (st @ [PyList []]) furniture_in))
            (st @ [PyList []]
               @ [PyList (sorted_reverse (key_at (st @ [PyList []]))
                            (list_at (st @ [PyList []]) furniture_in))], grid)
          = Inr (st', grid'))"
  using assms
  by (auto simp: position_furniture_store_def new_object_def Let_def list_at_def list_ex_iff
      split: if_splits option.splits pyobj.splits sum.splits prod.splits)

text \<open>
  Claim C10. When \<open>position_furniture\<close> returns, every object that existed before the
  call is unchanged: the input list, each item dict in it and the nested dimensions
  dicts. The returned list is a new object, and each of its elements is a new dict that
  equals an item of the input list with \<open>'position'\<close> set; no \<open>'position'\<close> is written to
  an input item.
\<close>

theorem position_furniture_store_frame:
  assumes "position_furniture_store st furniture_in room_length room_width = Inr (st', out)"
    and "furniture_in < length st"
  shows "length st \<le> length st'
    \<and> (\<forall>a < length st. st' ! a = st ! a)
    \<and> list_at st' furniture_in = list_at st furniture_in
    \<and> out = length st
    \<and> (\<forall>b \<in> set (list_at st' out). length st \<le> b \<and> b < length st'
          \<and> (\<exists>a \<in> set (list_at st furniture_in). \<exists>it pos. a < length st \<and> st ! a = Item it
                 \<and> st' ! b = Item (it\<lparr>d_position := Some pos\<rparr>)))"
proof -
  define st1 where "st1 = st @ [PyList []]"
  define items where "items = list_at st1 furniture_in"
  define srt where "srt = sorted_reverse (key_at st1) items"
  define st2 where "st2 = st1 @ [PyList srt]"
  from position_furniture_store_Inr[OF assms(1)] obtain grid grid' where
    out: "out = length st" and
    ok: "\<forall>a \<in> set items. \<not> isl (load_dimensions st1 a)" and
    run: "place_all (length st) srt (st2, grid) = Inr (st', grid')"
    unfolding st1_def items_def srt_def st2_def by auto
  have items_eq: "items = list_at st furniture_in"
    using assms(2) by (simp add: items_def st1_def list_at_def lookup_def nth_append)
  have item_range: "a < length st \<and> (\<exists>it. st ! a = Item it)" if "a \<in> set items" for a
  proof -
    from ok that obtain d where "load_dimensions st1 a = Inr d"
      by (cases "load_dimensions st1 a") auto
    from load_dimensions_Item[OF this] obtain it where
      it: "a < length st1" "st1 ! a = Item it" by blast
    have "a \<noteq> length st" using it(2) by (auto simp: st1_def)
    then have "a < length st" using it(1) by (simp add: st1_def)
    then show ?thesis using it(2) by (auto simp: st1_def nth_append)
  qed
  have len2: "length st2 = length st + 2" by (simp add: st2_def st1_def)
  have old2: "st2 ! a = st ! a" if "a < length st" for a
    using that by (simp add: st2_def st1_def nth_append)
  have out2: "length st < length st2" using len2 by simp
  have srt_ok: "\<forall>a \<in> set srt. a < length st2 \<and> a \<noteq> length st"
  proof
    fix a assume "a \<in> set srt"
    then have "a \<in> set items" by (simp add: srt_def)
    from item_range[OF this] show "a < length st2 \<and> a \<noteq> length st"
      using len2 by auto
  qed
  have l2: "list_at st2 (length st) = []"
    by (simp add: list_at_def lookup_def st2_def st1_def nth_append)
  from place_all_frame[OF run out2 srt_ok] obtain new where
    f1: "length st2 \<le> length st'" and
    f2: "\<forall>a < length st2. a \<noteq> length st \<longrightarrow> st' ! a = st2 ! a" and
    f3: "list_at st' (length st) = list_at st2 (length st) @ new" and
    f4: "\<forall>b \<in> set new. length st2 \<le> b \<and> b < length st'
          \<and> (\<exists>a \<in> set srt. \<exists>it pos. st2 ! a = Item it
                 \<and> st' ! b = Item (it\<lparr>d_position := Some pos\<rparr>))"
    by blast
  have c1: "length st \<le> length st'" using f1 len2 by simp
  have c2: "\<forall>a < length st. st' ! a = st ! a" using f2 old2 len2 by simp
  have c3: "list_at st' furniture_in = list_at st furniture_in"
    using c1 c2 assms(2) by (simp add: list_at_def lookup_def)
  have c5: "length st \<le> b \<and> b < length st'
          \<and> (\<exists>a \<in> set (list_at st furniture_in). \<exists>it pos. a < length st \<and> st ! a = Item it
                 \<and> st' ! b = Item (it\<lparr>d_position := Some pos\<rparr>))"
    if "b \<in> set (list_at st' out)" for b
  proof -
    have "b \<in> set new" using that f3 l2 out by simp
    with f4 obtain a it pos where
      a: "length st2 \<le> b" "b < length st'" "a \<in> set srt" "st2 ! a = Item it"
         "st' ! b = Item (it\<lparr>d_position := Some pos\<rparr>)" by blast
    have ai: "a \<in> set items" using a(3) by (simp add: srt_def)
    then have al: "a < length st" using item_range by blast
    then have "st ! a = Item it" using a(4) old2 by simp
    moreover have "a \<in> set (list_at st furniture_in)" using ai items_eq by simp
    moreover have "length st \<le> b" using a(1) len2 by simp
    ultimately show ?thesis using a(2,5) al by blast
  qed
  show ?thesis using c1 c2 c3 out c5 by blast
qed

lemma store_example:
  "position_furniture_store
     [Dims \<lparr>dim_length = 1, dim_width = 1 / 2\<rparr>,
      Item \<lparr>d_type = ''coffee_table'', d_price = 240, d_style = ''Modern'',
            d_dimensions = 0, d_position = None\<rparr>,
      Dims \<lparr>dim_length = 2, dim_width = 1\<rparr>,
      Item \<lparr>d_type = ''sofa'', d_price = 1200, d_style = ''Modern'',
            d_dimensions = 2, d_position = None\<rparr>,
      PyList [1, 3]] 4 3 2
   = Inr ([Dims \<lparr>dim_length = 1, dim_width = 1 / 2\<rparr>,
           Item \<lparr>d_type = ''coffee_table'', d_price = 240, d_style = ''Modern'',
                 d_dimensions = 0, d_position = None\<rparr>,
           Dims \<lparr>dim_length = 2, dim_width = 1\<rparr>,
           Item \<lparr>d_type = ''sofa'', d_price = 1200, d_style = ''Modern'',
                 d_dimensions = 2, d_position = None\<rparr>,
           PyList [1, 3], PyList [7, 8], PyList [3, 1],
           Item \<lparr>d_type = ''sofa'', d_price = 1200, d_style = ''Modern'',
                 d_dimensions = 2, d_position = Some (0, 0)\<rparr>,
           Item \<lparr>d_type = ''coffee_table'', d_price = 240, d_style = ''Modern'',
                 d_dimensions = 0, d_position = Some (2, 0)\<rparr>], 5)"
  by code_simp

theorem position_furniture_store_frame_witness:
  "position_furniture_store
     [Dims \<lparr>dim_length = 1, dim_width = 1 / 2\<rparr>,
      Item \<lparr>d_type = ''coffee_table'', d_price = 240, d_style = ''Modern'',
            d_dimensions = 0, d_position = None\<rparr>,
      Dims \<lparr>dim_length = 2, dim_width = 1\<rparr>,
      Item \<lparr>d_type = ''sofa'', d_price = 1200, d_style = ''Modern'',
            d_dimensions = 2, d_position = None\<rparr>,
      PyList [1, 3]] 4 3 2
   = Inr ([Dims \<lparr>dim_length = 1, dim_width = 1 / 2\<rparr>,
           Item \<lparr>d_type = ''coffee_table'', d_price = 240, d_style = ''Modern'',
                 d_dimensions = 0, d_position = None\<rparr>,
           Dims \<lparr>dim_length = 2, dim_width = 1\<rparr>,
           Item \<lparr>d_type = ''sofa'', d_price = 1200, d_style = ''Modern'',
                 d_dimensions = 2, d_position = None\<rparr>,
           PyList [1, 3], PyList [7, 8], PyList [3, 1],
           Item \<lparr>d_type = ''sofa'', d_price = 1200, d_style = ''Modern'',
                 d_dimensions = 2, d_position = Some (0, 0)\<rparr>,
           Item \<lparr>d_type = ''coffee_table'', d_price = 240, d_style = ''Modern'',
                 d_dimensions = 0, d_position = Some (2, 0)\<rparr>], 5)
   \<and> (4 :: nat) < length
     [Dims \<lparr>dim_length = 1, dim_width = 1 / 2\<rparr>,
      Item \<lparr>d_type = ''coffee_table'', d_price = 240, d_style = ''Modern'',
            d_dimensions = 0, d_position = None\<rparr>,
      Dims \<lparr>dim_length = 2, dim_width = 1\<rparr>,
      Item \<lparr>d_type = ''sofa'', d_price = 1200, d_style = ''Modern'',
            d_dimensions = 2, d_position = None\<rparr>,
      PyList [1, 3]]
   \<and> list_at
         [Dims \<lparr>dim_length = 1, dim_width = 1 / 2\<rparr>,
           Item \<lparr>d_type = ''coffee_table'', d_price = 240, d_style = ''Modern'',
                 d_dimensions = 0, d_position = None\<rparr>,
           Dims \<lparr>dim_length = 2, dim_width = 1\<rparr>,
           Item \<lparr>d_type = ''sofa'', d_price = 1200, d_style = ''Modern'',
                 d_dimensions = 2, d_position = None\<rparr>,
           PyList [1, 3], PyList [7, 8], PyList [3, 1],
           Item \<lparr>d_type = ''sofa'', d_price = 1200, d_style = ''Modern'',
                 d_dimensions = 2, d_position = Some (0, 0)\<rparr>,
           Item \<lparr>d_type = ''coffee_table'', d_price = 240, d_style = ''Modern'',
                 d_dimensions = 0, d_position = Some (2, 0)\<rparr>] 4
       = list_at
         [Dims \<lparr>dim_length = 1, dim_width = 1 / 2\<rparr>,
          Item \<lparr>d_type = ''coffee_table'', d_price = 240, d_style = ''Modern'',
                d_dimensions = 0, d_position = None\<rparr>,
          Dims \<lparr>dim_length = 2, dim_width = 1\<rparr>,
          Item \<lparr>d_type = ''sofa'', d_price = 1200, d_style = ''Modern'',
                d_dimensions = 2, d_position = None\<rparr>,
          PyList [1, 3]] 4"
proof -
  define st where "st =
     [Dims \<lparr>dim_length = 1, dim_width = 1 / 2\<rparr>,
      Item \<lparr>d_type = ''coffee_table'', d_price = 240, d_style = ''Modern'',
            d_dimensions = 0, d_position = None\<rparr>,
      Dims \<lparr>dim_length = 2, dim_width = 1\<rparr>,
      Item \<lparr>d_type = ''sofa'', d_price = 1200, d_style = ''Modern'',
            d_dimensions = 2, d_position = None\<rparr>,
      PyList [1, 3]]"
  define st' where "st' =
          [Dims \<lparr>dim_length = 1, dim_width = 1 / 2\<rparr>,
           Item \<lparr>d_type = ''coffee_table'', d_price = 240, d_style = ''Modern'',
                 d_dimensions = 0, d_position = None\<rparr>,
           Dims \<lparr>dim_length = 2, dim_width = 1\<rparr>,
           Item \<lparr>d_type = ''sofa'', d_price = 1200, d_style = ''Modern'',
                 d_dimensions = 2, d_position = None\<rparr>,
           PyList [1, 3], PyList [7, 8], PyList [3, 1],
           Item \<lparr>d_type = ''sofa'', d_price = 1200, d_style = ''Modern'',
                 d_dimensions = 2, d_position = Some (0, 0)\<rparr>,
           Item \<lparr>d_type = ''coffee_table'', d_price = 240, d_style = ''Modern'',
                 d_dimensions = 0, d_position = Some (2, 0)\<rparr>]"
  have e: "position_furniture_store st 4 3 2 = Inr (st', 5)"
    unfolding st_def st'_def by (rule store_example)
  have l: "(4 :: nat) < length st" by (simp add: st_def)
  from position_furniture_store_frame[OF e l]
  have "list_at st' 4 = list_at st 4" by blast
  then show ?thesis using e l unfolding st_def st'_def by blast
qed

lemma item_value_SomeD:
  assumes "item_value st a = Some v"
  shows "\<exists>it d. a < length st \<and> st ! a = Item it
           \<and> d_dimensions it < length st \<and> st ! d_dimensions it = Dims d
           \<and> v = \<lparr>item_type = d_type it, price = d_price it, item_style = d_style it,
                    dimensions = d\<rparr>"
  using assms
  by (auto simp: item_value_def lookup_def split: option.splits pyobj.splits if_splits)

lemma item_value_SomeI:
  assumes "a < length st" "st ! a = Item it" "d_dimensions it < length st"
    "st ! d_dimensions it = Dims d"
  shows "item_value st a = Some \<lparr>item_type = d_type it, price = d_price it,
            item_style = d_style it, dimensions = d\<rparr>"
  using assms by (simp add: item_value_def lookup_def)

lemma load_dimensions_item_value:
  "item_value st a = Some v \<Longrightarrow> load_dimensions st a = Inr (dimensions v)"
  by (auto simp: item_value_def load_dimensions_def split: option.splits pyobj.splits)

lemma key_at_item_value:
  "item_value st a = Some v \<Longrightarrow> key_at st a = footprint v"
  by (simp add: key_at_def load_dimensions_item_value footprint_def)

lemma frame_item_value:
  assumes fr: "\<forall>b < length st. b \<noteq> out \<longrightarrow> st' ! b = st ! b"
    and len: "length st \<le> length st'"
    and out: "st ! out = PyList xs"
    and v: "item_value st a = Some v"
  shows "item_value st' a = Some v"
proof -
  from item_value_SomeD[OF v] obtain it d where
    a: "a < length st" "st ! a = Item it" and
    d: "d_dimensions it < length st" "st ! d_dimensions it = Dims d" and
    veq: "v = \<lparr>item_type = d_type it, price = d_price it, item_style = d_style it,
              dimensions = d\<rparr>" by blast
  have "a \<noteq> out" using a(2) out by auto
  then have a': "st' ! a = Item it" using fr a by simp
  have "d_dimensions it \<noteq> out" using d(2) out by auto
  then have d': "st' ! d_dimensions it = Dims d" using fr d by simp
  show ?thesis
    unfolding veq using a(1) d(1) len a' d' by (intro item_value_SomeI) simp_all
qed

lemma positioned_value_SomeI:
  assumes "item_value st b = Some v" "b < length st" "st ! b = Item it" "d_position it = Some pos"
  shows "positioned_value st b = Some (furniture_item.extend v \<lparr>position = pos\<rparr>)"
  using assms by (simp add: positioned_value_def lookup_def)

lemma positioned_value_SomeD:
  assumes "positioned_value st b = Some p"
  shows "\<exists>v it pos. item_value st b = Some v \<and> b < length st \<and> st ! b = Item it
           \<and> d_position it = Some pos \<and> p = furniture_item.extend v \<lparr>position = pos\<rparr>"
  using assms
  by (auto simp: positioned_value_def lookup_def split: option.splits pyobj.splits if_splits)

lemma frame_positioned_value:
  assumes fr: "\<forall>b < length st. b \<noteq> out \<longrightarrow> st' ! b = st ! b"
    and len: "length st \<le> length st'"
    and out: "st ! out = PyList xs"
    and p: "positioned_value st b = Some p"
  shows "positioned_value st' b = Some p"
proof -
  from positioned_value_SomeD[OF p] obtain v it pos where
    v: "item_value st b = Some v" and b: "b < length st" "st ! b = Item it"
    and pos: "d_position it = Some pos" and peq: "p = furniture_item.extend v \<lparr>position = pos\<rparr>"
    by blast
  have v': "item_value st' b = Some v" by (rule frame_item_value[OF fr len out v])
  have "b \<noteq> out" using b(2) out by auto
  then have "st' ! b = Item it" using fr b by simp
  then show ?thesis unfolding peq using v' b(1) len pos by (intro positioned_value_SomeI) simp_all
qed

lemma add_positioned_ok:
  assumes out: "out < length st" "st ! out = PyList xs"
    and v: "item_value st a = Some v"
  shows "\<exists>st3. add_positioned st out a pos = Inr st3
     \<and> st3 ! out = PyList (xs @ [length st])
     \<and> positioned_value st3 (length st) = Some (furniture_item.extend v \<lparr>position = pos\<rparr>)"
proof -
  from item_value_SomeD[OF v] obtain it d where
    a: "a < length st" "st ! a = Item it" and
    d: "d_dimensions it < length st" "st ! d_dimensions it = Dims d" and
    veq: "v = \<lparr>item_type = d_type it, price = d_price it, item_style = d_style it,
              dimensions = d\<rparr>" by blast
  define st3 where "st3 = (st @ [Item (it\<lparr>d_position := Some pos\<rparr>)])[out := PyList (xs @ [length st])]"
  have e: "add_positioned st out a pos = Inr st3"
    using a out
    by (simp add: add_positioned_def dict_copy_def new_object_def set_position_def
        list_append_def lookup_def st3_def nth_append)
  have o: "st3 ! out = PyList (xs @ [length st])" using out by (simp add: st3_def)
  have n: "st3 ! length st = Item (it\<lparr>d_position := Some pos\<rparr>)"
    using out by (simp add: st3_def)
  have "d_dimensions it \<noteq> out" using d(2) out by auto
  then have dd: "st3 ! d_dimensions it = Dims d" using d by (simp add: st3_def nth_append)
  have iv: "item_value st3 (length st) = Some v"
    unfolding veq using item_value_SomeI[of "length st" st3 "it\<lparr>d_position := Some pos\<rparr>" d]
      n dd d(1) by (simp add: st3_def)
  have "positioned_value st3 (length st) = Some (furniture_item.extend v \<lparr>position = pos\<rparr>)"
    using iv n by (intro positioned_value_SomeI[where it = "it\<lparr>d_position := Some pos\<rparr>"])
      (simp_all add: st3_def)
  then show ?thesis using e o by blast
qed


lemma place_all_simulates:
  assumes "out < length st" "st ! out = PyList outs"
    and "\<forall>a \<in> set addrs. item_value st a = Some (f a)"
    and "fold place_item (map f addrs) (grid, pl) = (g', pl')"
  shows "\<exists>st' bs new. place_all out addrs (st, grid) = Inr (st', g') \<and> pl' = pl @ new
      \<and> st' ! out = PyList (outs @ bs)
      \<and> map (positioned_value st') bs = map (\<lambda>p. Some (positioned p)) new
      \<and> length st \<le> length st' \<and> (\<forall>b < length st. b \<noteq> out \<longrightarrow> st' ! b = st ! b)"
  using assms
proof (induction addrs arbitrary: st grid pl outs)
  case Nil
  then show ?case by simp
next
  case (Cons a rest)
  define v where "v = f a"
  have va: "item_value st a = Some v" using Cons.prems(3) by (simp add: v_def)
  have ld: "load_dimensions st a = Inr (dimensions v)" by (rule load_dimensions_item_value[OF va])
  have rest_v: "\<forall>a \<in> set rest. item_value st a = Some (f a)" using Cons.prems(3) by simp
  define il where "il = grid_units (dim_length (dimensions v))"
  define iw where "iw = grid_units (dim_width (dimensions v))"
  show ?case
  proof (cases "find_furniture_position grid il iw grid_size")
    case None
    have pi: "place_item v (grid, pl) = (grid, pl)"
      using None by (simp add: place_item_def Let_def il_def iw_def)
    have pa: "place_all out (a # rest) (st, grid) = place_all out rest (st, grid)"
      using None ld by (simp add: Let_def il_def iw_def)
    have f: "fold place_item (map f rest) (grid, pl) = (g', pl')"
      using Cons.prems(4) pi by (simp add: v_def)
    from Cons.IH[OF Cons.prems(1,2) rest_v f] show ?thesis unfolding pa .
  next
    case (Some xy)
    obtain x y where xy: "xy = (x, y)" by (cases xy)
    define pos where "pos = (fmul (of_int x) grid_size, fmul (of_int y) grid_size)"
    define grid1 where "grid1 = assign_one grid (block (shape grid) y iw x il)"
    have pi: "place_item v (grid, pl) = (grid1, pl @ [(v, (x, y))])"
      using Some xy by (simp add: place_item_def Let_def il_def iw_def grid1_def)
    from add_positioned_ok[OF Cons.prems(1,2) va, of pos] obtain st3 where
      ap: "add_positioned st out a pos = Inr st3" and
      o3: "st3 ! out = PyList (outs @ [length st])" and
      p3: "positioned_value st3 (length st) = Some (furniture_item.extend v \<lparr>position = pos\<rparr>)"
      by blast
    note fr = add_positioned_frame[OF ap Cons.prems(1)]
    have pa: "place_all out (a # rest) (st, grid) = place_all out rest (st3, grid1)"
      using Some xy ld ap by (simp add: Let_def il_def iw_def grid1_def pos_def)
    have out3: "out < length st3" using Cons.prems(1) fr(1) by simp
    have fr3: "\<forall>b < length st. b \<noteq> out \<longrightarrow> st3 ! b = st ! b" using fr(2) by blast
    have len3: "length st \<le> length st3" using fr(1) by simp
    have rest3: "\<forall>a \<in> set rest. item_value st3 a = Some (f a)"
      using rest_v frame_item_value[OF fr3 len3 Cons.prems(2)] by blast
    have f: "fold place_item (map f rest) (grid1, pl @ [(v, (x, y))]) = (g', pl')"
      using Cons.prems(4) pi by (simp add: v_def)
    from Cons.IH[OF out3 o3 rest3 f] obtain st' bs new where
      r: "place_all out rest (st3, grid1) = Inr (st', g')" and
      n: "pl' = (pl @ [(v, (x, y))]) @ new" and
      o: "st' ! out = PyList ((outs @ [length st]) @ bs)" and
      m: "map (positioned_value st') bs = map (\<lambda>p. Some (positioned p)) new" and
      l: "length st3 \<le> length st'" and
      fr': "\<forall>b < length st3. b \<noteq> out \<longrightarrow> st' ! b = st3 ! b"
      by blast
    have p': "positioned_value st' (length st) = Some (positioned (v, (x, y)))"
      using frame_positioned_value[OF fr' l o3 p3] by (simp add: positioned_def pos_def)
    have c1: "place_all out (a # rest) (st, grid) = Inr (st', g')" using pa r by simp
    have c2: "pl' = pl @ ((v, (x, y)) # new)" using n by simp
    have c3: "st' ! out = PyList (outs @ (length st # bs))" using o by simp
    have c4: "map (positioned_value st') (length st # bs)
                = map (\<lambda>p. Some (positioned p)) ((v, (x, y)) # new)"
      using m p' by simp
    have c5: "length st \<le> length st'" using l len3 by simp
    have c6: "\<forall>b < length st. b \<noteq> out \<longrightarrow> st' ! b = st ! b"
      using fr' fr3 fr(1) by simp
    show ?thesis using c1 c2 c3 c4 c5 c6 by blast
  qed
qed

lemma map_insort_key:
  assumes "k x = k' (f x)" "\<forall>y \<in> set ys. k y = k' (f y)"
  shows "map f (insort_key k x ys) = insort_key k' (f x) (map f ys)"
  using assms by (induction ys) auto

lemma map_sort_key:
  assumes "\<forall>x \<in> set xs. k x = k' (f x)"
  shows "map f (sort_key k xs) = sort_key k' (map f xs)"
  using assms
proof (induction xs)
  case Nil
  then show ?case by simp
next
  case (Cons x xs)
  then show ?case by (simp add: map_insort_key)
qed

lemma map_sorted_reverse:
  assumes "\<forall>x \<in> set xs. k x = k' (f x)"
  shows "map f (sorted_reverse k xs) = sorted_reverse k' (map f xs)"
proof -
  have "\<forall>x \<in> set (rev xs). k x = k' (f x)" using assms by simp
  then have e: "map f (sort_key k (rev xs)) = sort_key k' (map f (rev xs))"
    by (rule map_sort_key[of "rev xs" k k' f])
  have "map f (rev (sort_key k (rev xs))) = rev (map f (sort_key k (rev xs)))"
    by (simp only: rev_map)
  also have "\<dots> = rev (sort_key k' (map f (rev xs)))" by (simp only: e)
  also have "\<dots> = rev (sort_key k' (rev (map f xs)))" by (simp only: rev_map)
  finally show ?thesis by (simp only: sorted_reverse_def)
qed


lemma item_value_append:
  assumes "item_value st a = Some v"
  shows "item_value (st @ xs) a = Some v"
proof -
  from item_value_SomeD[OF assms] obtain it d where
    a: "a < length st" "st ! a = Item it" and
    d: "d_dimensions it < length st" "st ! d_dimensions it = Dims d" and
    veq: "v = \<lparr>item_type = d_type it, price = d_price it, item_style = d_style it,
              dimensions = d\<rparr>" by blast
  show ?thesis unfolding veq using a d
    by (intro item_value_SomeI) (simp_all add: nth_append)
qed

text \<open>
  The function on the store computes what the function on values computes. When the
  input list holds well-formed item dicts that stand for the items \<open>furn\<close>, the store
  version fails exactly when the value version fails, and otherwise returns a new list
  whose dicts stand for the positioned items the value version returns, in order.
\<close>

theorem position_furniture_store_refines:
  assumes f: "furniture_in < length st" "st ! furniture_in = PyList items"
    and v: "map (item_value st) items = map Some furn"
  shows "(\<forall>e. position_furniture furn room_length room_width = Inl e \<longrightarrow>
            position_furniture_store st furniture_in room_length room_width = Inl e)
     \<and> (\<forall>ps. position_furniture furn room_length room_width = Inr ps \<longrightarrow>
            (\<exists>st'. position_furniture_store st furniture_in room_length room_width
                      = Inr (st', length st)
               \<and> map (positioned_value st') (list_at st' (length st)) = map Some ps))"
proof -
  define g where "g = (\<lambda>a. the (item_value st a))"
  define st1 where "st1 = st @ [PyList []]"
  define srt where "srt = sorted_reverse (key_at st1) items"
  define st2 where "st2 = st1 @ [PyList srt]"
  have len: "length items = length furn" using v by (metis length_map)
  have iv: "item_value st a = Some (g a)" if "a \<in> set items" for a
  proof -
    from that obtain i where i: "i < length items" "items ! i = a" by (auto simp: in_set_conv_nth)
    have "map (item_value st) items ! i = map Some furn ! i" using v by simp
    then have "item_value st a = Some (furn ! i)" using i len by simp
    then show ?thesis by (simp add: g_def)
  qed
  have furn: "furn = map g items"
  proof (rule nth_equalityI)
    show "length furn = length (map g items)" using len by simp
    fix i assume "i < length furn"
    then have i: "i < length items" using len by simp
    have "map (item_value st) items ! i = map Some furn ! i" using v by simp
    then have "item_value st (items ! i) = Some (furn ! i)" using i len by simp
    then show "furn ! i = map g items ! i" using i by (simp add: g_def)
  qed
  have iv1: "item_value st1 a = Some (g a)" if "a \<in> set items" for a
    unfolding st1_def by (rule item_value_append[OF iv[OF that]])
  have iv2: "\<forall>a \<in> set srt. item_value st2 a = Some (g a)"
    unfolding st2_def using iv1 item_value_append by (simp add: srt_def)
  have keys: "\<forall>a \<in> set items. key_at st1 a = footprint (g a)"
    using iv1 key_at_item_value by blast
  have msrt: "map g srt = sorted_reverse footprint furn"
    unfolding srt_def furn using keys
    by (rule map_sorted_reverse[of items "key_at st1" footprint g])
  have lf: "lookup st1 furniture_in = Some (PyList items)"
    using f by (simp add: lookup_def st1_def nth_append)
  have no_err: "\<not> list_ex (\<lambda>a. isl (load_dimensions st1 a)) items"
    using iv1 load_dimensions_item_value by (auto simp: list_ex_iff)
  have out2: "length st < length st2" by (simp add: st2_def st1_def)
  have o2: "st2 ! length st = PyList []" by (simp add: st2_def st1_def nth_append)
  define gl where "gl = grid_units room_length"
  define gw where "gw = grid_units room_width"
  show ?thesis
  proof (cases "gw < 0 \<or> gl < 0")
    case True
    have "position_furniture furn room_length room_width = Inl ValueError"
      using True by (simp add: position_furniture_def placements_def Let_def gl_def gw_def)
    moreover have "position_furniture_store st furniture_in room_length room_width = Inl ValueError"
      using True by (simp add: position_furniture_store_def new_object_def Let_def gl_def gw_def)
    ultimately show ?thesis by simp
  next
    case False
    define grid where "grid = np_zeros (nat gw, nat gl)"
    obtain g' pl' where fo: "fold place_item (map g srt) (grid, []) = (g', pl')"
      by (cases "fold place_item (map g srt) (grid, [])")
    have pf: "position_furniture furn room_length room_width = Inr (map positioned pl')"
      using False fo msrt
      by (simp add: position_furniture_def placements_def Let_def gl_def gw_def grid_def)
    from place_all_simulates[OF out2 o2 iv2 fo] obtain st' bs new where
      r: "place_all (length st) srt (st2, grid) = Inr (st', g')" and
      n: "pl' = [] @ new" and
      o: "st' ! length st = PyList ([] @ bs)" and
      m: "map (positioned_value st') bs = map (\<lambda>p. Some (positioned p)) new" and
      l: "length st2 \<le> length st'"
      by blast
    have ps: "position_furniture_store st furniture_in room_length room_width
                = Inr (st', length st)"
      using False lf no_err r
      by (simp add: position_furniture_store_def new_object_def Let_def
          st1_def[symmetric] srt_def[symmetric] st2_def[symmetric]
          gl_def[symmetric] gw_def[symmetric] grid_def[symmetric])
    have la: "list_at st' (length st) = bs"
      using o l out2 by (simp add: list_at_def lookup_def)
    have "map (positioned_value st') (list_at st' (length st)) = map Some (map positioned pl')"
      using m n la by simp
    then show ?thesis using pf ps by simp
  qed
qed

section \<open>Prices\<close>

lemma base_price_values:
  "base_price_of t \<in> set [100, 150, 200, 300, 400, 500, 600, 700, 800, 1000]"
  by (simp add: base_price_of_def base_prices_def)

lemma lit_1_1: "fl (11 / 10) = 2476979795053773 / 2251799813685248"
  by code_simp

lemma lit_1_3: "fl (13 / 10) = 5854679515581645 / 4503599627370496"
  by code_simp

lemma lit_1: "fl 1 = 1"
  by code_simp

lemma modern_column:
  "list_all (\<lambda>b. py_int (fmul (of_int b) (5404319552844595 / 4503599627370496))
                   = \<lfloor>of_int b * (12 / 10 :: rat)\<rfloor>)
     [100, 150, 200, 300, 400, 500, 600, 700, 800, 1000]"
  by code_simp

lemma traditional_column:
  "list_all (\<lambda>b. py_int (fmul (of_int b) (2476979795053773 / 2251799813685248))
                   = \<lfloor>of_int b * (11 / 10 :: rat)\<rfloor>)
     [100, 150, 200, 300, 400, 500, 600, 700, 800, 1000]"
  by code_simp

lemma scandinavian_column:
  "list_all (\<lambda>b. py_int (fmul (of_int b) (5854679515581645 / 4503599627370496))
                   = \<lfloor>of_int b * (13 / 10 :: rat)\<rfloor>)
     [100, 150, 200, 300, 400, 500, 600, 700, 800, 1000]"
  by code_simp

lemma unit_column:
  "list_all (\<lambda>b. py_int (fmul (of_int b) 1) = \<lfloor>of_int b * (1 :: rat)\<rfloor>)
     [100, 150, 200, 300, 400, 500, 600, 700, 800, 1000]"
  by code_simp


lemma industrial_values:
  "py_int (fmul 1000 (fl (23 / 20))) = 1150" "py_int (fmul 200 (fl (23 / 20))) = 229"
  "py_int (fmul 300 (fl (23 / 20))) = 345" "py_int (fmul 400 (fl (23 / 20))) = 459"
  "py_int (fmul 800 (fl (23 / 20))) = 919" "py_int (fmul 600 (fl (23 / 20))) = 690"
  "py_int (fmul 150 (fl (23 / 20))) = 172" "py_int (fmul 500 (fl (23 / 20))) = 575"
  "py_int (fmul 700 (fl (23 / 20))) = 804"
  by code_simp+

lemma industrial_exact:
  "map (\<lambda>t. \<lfloor>of_int (base_price_of t) * exact_multiplier ''Industrial''\<rfloor>)
     [''sofa'', ''coffee_table'', ''tv_stand'', ''armchair'', ''bed'', ''wardrobe'',
      ''nightstand'', ''desk'', ''office_chair'', ''bookshelf'', ''dining_table'', ''chairs'',
      ''sideboard'', ''counter'', ''storage'', ''dining_set'']
   = [1150, 230, 345, 460, 920, 690, 115, 460, 230, 345, 690, 172, 460, 920, 575, 805]"
  by code_simp

lemma default_price: "py_int (fmul 300 1) = 300"
  by code_simp

text \<open>
  The prices the code gives under style Industrial, next to the floors of the products
  with the decimal number 1.15 that the literal stands for: the binary64 multiplier is
  slightly below 1.15, and nine of the sixteen catalog types come out one lower.
\<close>

theorem industrial_prices:
  "map (\<lambda>t. price (generate_furniture_item \<lparr>req_type = t, priority = 1, min_area = 1\<rparr>
                      ''Industrial''))
     [''sofa'', ''coffee_table'', ''tv_stand'', ''armchair'', ''bed'', ''wardrobe'',
      ''nightstand'', ''desk'', ''office_chair'', ''bookshelf'', ''dining_table'', ''chairs'',
      ''sideboard'', ''counter'', ''storage'', ''dining_set'']
   = [1150, 229, 345, 459, 919, 690, 114, 459, 229, 345, 690, 172, 459, 919, 575, 804]
   \<and> map (\<lambda>t. \<lfloor>of_int (base_price_of t) * exact_multiplier ''Industrial''\<rfloor>)
     [''sofa'', ''coffee_table'', ''tv_stand'', ''armchair'', ''bed'', ''wardrobe'',
      ''nightstand'', ''desk'', ''office_chair'', ''bookshelf'', ''dining_table'', ''chairs'',
      ''sideboard'', ''counter'', ''storage'', ''dining_set'']
   = [1150, 230, 345, 460, 920, 690, 115, 460, 230, 345, 690, 172, 460, 920, 575, 805]"
  unfolding industrial_exact
  by (simp add: generate_furniture_item_def base_prices_def style_multipliers_def
      industrial_values industrial_nightstand)

lemma price_formula:
  "price (generate_furniture_item r style)
     = py_int (fmul (of_int (base_price_of (req_type r)))
                 (case map_of style_multipliers style of Some m \<Rightarrow> m | None \<Rightarrow> fl 1))"
  by (simp add: generate_furniture_item_def base_price_of_def)









text \<open>
  For every type and every style other than Industrial, known or not, the price is the
  floor of the exact product of the base price and the decimal multiplier.
\<close>

theorem price_exact_but_industrial:
  assumes "style \<noteq> ''Industrial''"
  shows "price (generate_furniture_item r style)
           = \<lfloor>of_int (base_price_of (req_type r)) * exact_multiplier style\<rfloor>"
proof -
  define b where "b = base_price_of (req_type r)"
  have b: "b \<in> set [100, 150, 200, 300, 400, 500, 600, 700, 800, 1000]"
    unfolding b_def by (rule base_price_values)
  have "style = ''Modern'' \<or> style = ''Traditional'' \<or> style = ''Minimalist''
      \<or> style = ''Scandinavian''
      \<or> (map_of style_multipliers style = None \<and> exact_multiplier style = 1)"
    using assms by (simp add: style_multipliers_def exact_multiplier_def)
  then consider (modern) "style = ''Modern''" | (traditional) "style = ''Traditional''"
    | (minimalist) "style = ''Minimalist''" | (scandinavian) "style = ''Scandinavian''"
    | (other) "map_of style_multipliers style = None" "exact_multiplier style = 1"
    by (elim disjE conjE) assumption+
  then show ?thesis
  proof cases
    case modern
    have "py_int (fmul (of_int b) (5404319552844595 / 4503599627370496))
            = \<lfloor>of_int b * (12 / 10 :: rat)\<rfloor>"
      using modern_column b unfolding list_all_iff by blast
    then show ?thesis
      unfolding price_formula b_def[symmetric]
      by (simp add: modern style_multipliers_def exact_multiplier_def lit_1_2)
  next
    case traditional
    have "py_int (fmul (of_int b) (2476979795053773 / 2251799813685248))
            = \<lfloor>of_int b * (11 / 10 :: rat)\<rfloor>"
      using traditional_column b unfolding list_all_iff by blast
    then show ?thesis
      unfolding price_formula b_def[symmetric]
      by (simp add: traditional style_multipliers_def exact_multiplier_def lit_1_1)
  next
    case minimalist
    have "py_int (fmul (of_int b) 1) = \<lfloor>of_int b * (1 :: rat)\<rfloor>"
      using unit_column b unfolding list_all_iff by blast
    then show ?thesis
      unfolding price_formula b_def[symmetric]
      by (simp add: minimalist style_multipliers_def exact_multiplier_def lit_1)
  next
    case scandinavian
    have "py_int (fmul (of_int b) (5854679515581645 / 4503599627370496))
            = \<lfloor>of_int b * (13 / 10 :: rat)\<rfloor>"
      using scandinavian_column b unfolding list_all_iff by blast
    then show ?thesis
      unfolding price_formula b_def[symmetric]
      by (simp add: scandinavian style_multipliers_def exact_multiplier_def lit_1_3)
  next
    case other
    have "py_int (fmul (of_int b) 1) = \<lfloor>of_int b * (1 :: rat)\<rfloor>"
      using unit_column b unfolding list_all_iff by blast
    then show ?thesis
      unfolding price_formula b_def[symmetric] by (simp add: other lit_1)
  qed
qed

theorem price_exact_but_industrial_witness:
  "''Scandinavian'' \<noteq> ''Industrial''
   \<and> price (generate_furniture_item \<lparr>req_type = ''dining_set'', priority = 2,
                                        min_area = fl (12 / 10)\<rparr> ''Scandinavian'') = 910"
proof -
  have n: "''Scandinavian'' \<noteq> ''Industrial''" by simp
  have "\<lfloor>of_int (base_price_of ''dining_set'') * exact_multiplier ''Scandinavian''\<rfloor> = 910"
    by (simp add: base_price_of_def base_prices_def exact_multiplier_def)
  then show ?thesis
    using price_exact_but_industrial[OF n, of "\<lparr>req_type = ''dining_set'', priority = 2,
                                        min_area = fl (12 / 10)\<rparr>"] by simp
qed

text \<open>
  The fields of an instantiated item: the price is the integer part of the binary64
  product of base price and multiplier, an unknown type has base price 300, an unknown
  style leaves the base price as it is, and the dimensions come from the dimension
  table (1.0 by 1.0 for an unknown type) whatever the style.
\<close>

theorem furniture_item_defaults:
  "item_type (generate_furniture_item r style) = req_type r
   \<and> item_style (generate_furniture_item r style) = style
   \<and> price (generate_furniture_item r style)
       = py_int (fmul (of_int (base_price_of (req_type r)))
                   (case map_of style_multipliers style of Some m \<Rightarrow> m | None \<Rightarrow> fl 1))
   \<and> dimensions (generate_furniture_item r style) = get_furniture_dimensions (req_type r)
   \<and> dimensions (generate_furniture_item r style) = dimensions (generate_furniture_item r style')
   \<and> (map_of base_prices (req_type r) = None \<longrightarrow> base_price_of (req_type r) = 300)
   \<and> (map_of style_multipliers style = None \<longrightarrow>
         price (generate_furniture_item r style) = base_price_of (req_type r))
   \<and> (map_of dimensions_table (req_type r) = None \<longrightarrow>
         dimensions (generate_furniture_item r style) = \<lparr>dim_length = 1, dim_width = 1\<rparr>)"
proof -
  define b where "b = base_price_of (req_type r)"
  have b: "b \<in> set [100, 150, 200, 300, 400, 500, 600, 700, 800, 1000]"
    unfolding b_def by (rule base_price_values)
  have u: "py_int (fmul (of_int b) 1) = b"
    using unit_column b unfolding list_all_iff by auto
  have p: "map_of style_multipliers style = None \<longrightarrow>
         price (generate_furniture_item r style) = base_price_of (req_type r)"
    unfolding price_formula b_def[symmetric] using u by (simp add: lit_1)
  show ?thesis
    using p by (simp add: price_formula generate_furniture_item_def base_price_of_def
        get_furniture_dimensions_def lit_1)
qed

theorem furniture_item_defaults_witness:
  "map_of base_prices ''garden_gnome'' = None \<and> map_of style_multipliers ''Baroque'' = None
   \<and> map_of dimensions_table ''garden_gnome'' = None
   \<and> price (generate_furniture_item \<lparr>req_type = ''garden_gnome'', priority = 1, min_area = 1\<rparr>
               ''Baroque'') = 300
   \<and> dimensions (generate_furniture_item
                    \<lparr>req_type = ''garden_gnome'', priority = 1, min_area = 1\<rparr> ''Baroque'')
       = \<lparr>dim_length = 1, dim_width = 1\<rparr>"
proof -
  have a: "map_of base_prices ''garden_gnome'' = None" by (simp add: base_prices_def)
  have b: "map_of style_multipliers ''Baroque'' = None" by (simp add: style_multipliers_def)
  have c: "map_of dimensions_table ''garden_gnome'' = None" by (simp add: dimensions_table_def)
  from furniture_item_defaults[of "\<lparr>req_type = ''garden_gnome'', priority = 1, min_area = 1\<rparr>"
      "''Baroque''"] a b c
  show ?thesis
    by (simp add: base_price_of_def get_furniture_dimensions_def lit_1 default_price)
qed

section \<open>Further properties and the scenarios of the specification\<close>

text \<open>
  The cost of every generated option is the sum of the prices of its furniture.
\<close>

theorem cost_is_sum_of_prices:
  assumes "l \<in> set (generate_room_layout area room_type style reqs)"
  shows "cost l = sum_list (map price (furniture l))"
proof -
  from assms obtain i where l: "l = build_layout i area room_type style reqs"
    unfolding generate_room_layout_def by auto
  show ?thesis unfolding l build_layout_fields by (simp add: comp_def)
qed

theorem cost_is_sum_of_prices_witness:
  "build_layout 0 (fmul 5 4) ''Bedroom'' ''Modern'' (get_furniture_requirements ''Bedroom'')
     \<in> set (generate_room_layout (fmul 5 4) ''Bedroom'' ''Modern''
              (get_furniture_requirements ''Bedroom''))
   \<and> sum_list (map price (furniture (build_layout 0 (fmul 5 4) ''Bedroom'' ''Modern''
        (get_furniture_requirements ''Bedroom'')))) = 1800"
proof -
  define reqs where "reqs = get_furniture_requirements ''Bedroom''"
  define l where "l = build_layout 0 (fmul 5 4) ''Bedroom'' ''Modern'' reqs"
  have m: "l \<in> set (generate_room_layout (fmul 5 4) ''Bedroom'' ''Modern'' reqs)"
    unfolding l_def generate_room_layout_def by simp
  have c: "cost l = 1800"
    unfolding l_def reqs_def build_layout_fields selected_bedroom by (rule bedroom_modern_cost)
  from cost_is_sum_of_prices[OF m] c show ?thesis using m unfolding l_def reqs_def by simp
qed

text \<open>
  A room type the catalog does not know has no requirements, and its options hold no
  furniture and cost 0.
\<close>

theorem unknown_room_type:
  assumes "map_of requirements room_type = None"
    and "l \<in> set (generate_room_layout area room_type style
                    (get_furniture_requirements room_type))"
  shows "get_furniture_requirements room_type = [] \<and> furniture l = [] \<and> cost l = 0"
proof -
  have e: "get_furniture_requirements room_type = []"
    using assms(1) by (simp add: get_furniture_requirements_def)
  from assms(2) obtain i where l: "l = build_layout i area room_type style []"
    unfolding generate_room_layout_def e by auto
  show ?thesis unfolding l build_layout_fields using e by simp
qed

theorem unknown_room_type_witness:
  "map_of requirements ''Garage'' = None
   \<and> build_layout 0 20 ''Garage'' ''Modern'' (get_furniture_requirements ''Garage'')
       \<in> set (generate_room_layout 20 ''Garage'' ''Modern'' (get_furniture_requirements ''Garage''))
   \<and> get_furniture_requirements ''Garage'' = []
   \<and> furniture (build_layout 0 20 ''Garage'' ''Modern'' (get_furniture_requirements ''Garage'')) = []
   \<and> cost (build_layout 0 20 ''Garage'' ''Modern'' (get_furniture_requirements ''Garage'')) = 0"
proof -
  have a: "map_of requirements ''Garage'' = None" by (simp add: requirements_def)
  have m: "build_layout 0 20 ''Garage'' ''Modern'' (get_furniture_requirements ''Garage'')
       \<in> set (generate_room_layout 20 ''Garage'' ''Modern'' (get_furniture_requirements ''Garage''))"
    unfolding generate_room_layout_def by simp
  note t = unknown_room_type[OF a m]
  show ?thesis using a m t by (elim conjE) (intro conjI; assumption)
qed

text \<open>
  Scenario 2: with the budget (2000, 5000) the options of scenario 1, at cost 1800,
  are all filtered out.
\<close>

theorem scenario_2_filtered_out:
  "filter_by_budget
     (generate_room_layout (fmul 5 4) ''Bedroom'' ''Modern''
        (get_furniture_requirements ''Bedroom'')) (2000, 5000) = []"
proof -
  have c: "cost (build_layout i (fmul 5 4) ''Bedroom'' ''Modern''
              (get_furniture_requirements ''Bedroom'')) = 1800" for i
    unfolding build_layout_fields selected_bedroom by (rule bedroom_modern_cost)
  show ?thesis
    unfolding generate_room_layout_def by (simp add: filter_by_budget_def c)
qed

lemma example_values:
  "map (item_value
     [Dims \<lparr>dim_length = 1, dim_width = 1 / 2\<rparr>,
      Item \<lparr>d_type = ''coffee_table'', d_price = 240, d_style = ''Modern'',
            d_dimensions = 0, d_position = None\<rparr>,
      Dims \<lparr>dim_length = 2, dim_width = 1\<rparr>,
      Item \<lparr>d_type = ''sofa'', d_price = 1200, d_style = ''Modern'',
            d_dimensions = 2, d_position = None\<rparr>,
      PyList [1, 3]]) [1, 3]
   = map Some
     [\<lparr>item_type = ''coffee_table'', price = 240, item_style = ''Modern'',
        dimensions = \<lparr>dim_length = 1, dim_width = 1 / 2\<rparr>\<rparr>,
      \<lparr>item_type = ''sofa'', price = 1200, item_style = ''Modern'',
        dimensions = \<lparr>dim_length = 2, dim_width = 1\<rparr>\<rparr>]"
  by code_simp

lemma example_positioned:
  "position_furniture
     [\<lparr>item_type = ''coffee_table'', price = 240, item_style = ''Modern'',
        dimensions = \<lparr>dim_length = 1, dim_width = 1 / 2\<rparr>\<rparr>,
      \<lparr>item_type = ''sofa'', price = 1200, item_style = ''Modern'',
        dimensions = \<lparr>dim_length = 2, dim_width = 1\<rparr>\<rparr>] 3 2
   = Inr [\<lparr>item_type = ''sofa'', price = 1200, item_style = ''Modern'',
            dimensions = \<lparr>dim_length = 2, dim_width = 1\<rparr>, position = (0, 0)\<rparr>,
          \<lparr>item_type = ''coffee_table'', price = 240, item_style = ''Modern'',
            dimensions = \<lparr>dim_length = 1, dim_width = 1 / 2\<rparr>, position = (2, 0)\<rparr>]"
  by code_simp

text \<open>
  The two versions of \<open>position_furniture\<close> on a sofa and a coffee table.
\<close>

theorem position_furniture_store_refines_witness:
  "(\<exists>st'. position_furniture_store
     [Dims \<lparr>dim_length = 1, dim_width = 1 / 2\<rparr>,
      Item \<lparr>d_type = ''coffee_table'', d_price = 240, d_style = ''Modern'',
            d_dimensions = 0, d_position = None\<rparr>,
      Dims \<lparr>dim_length = 2, dim_width = 1\<rparr>,
      Item \<lparr>d_type = ''sofa'', d_price = 1200, d_style = ''Modern'',
            d_dimensions = 2, d_position = None\<rparr>,
      PyList [1, 3]] 4 3 2 = Inr (st', 5)
    \<and> map (positioned_value st') (list_at st' 5)
       = map Some
         [\<lparr>item_type = ''sofa'', price = 1200, item_style = ''Modern'',
            dimensions = \<lparr>dim_length = 2, dim_width = 1\<rparr>, position = (0, 0)\<rparr>,
          \<lparr>item_type = ''coffee_table'', price = 240, item_style = ''Modern'',
            dimensions = \<lparr>dim_length = 1, dim_width = 1 / 2\<rparr>, position = (2, 0)\<rparr>])"
proof -
  define st where "st =
     [Dims \<lparr>dim_length = 1, dim_width = 1 / 2\<rparr>,
      Item \<lparr>d_type = ''coffee_table'', d_price = 240, d_style = ''Modern'',
            d_dimensions = 0, d_position = None\<rparr>,
      Dims \<lparr>dim_length = 2, dim_width = 1\<rparr>,
      Item \<lparr>d_type = ''sofa'', d_price = 1200, d_style = ''Modern'',
            d_dimensions = 2, d_position = None\<rparr>,
      PyList [1, 3]]"
  define furn where "furn =
     [\<lparr>item_type = ''coffee_table'', price = 240, item_style = ''Modern'',
        dimensions = \<lparr>dim_length = 1, dim_width = 1 / 2\<rparr>\<rparr>,
      \<lparr>item_type = ''sofa'', price = 1200, item_style = ''Modern'',
        dimensions = \<lparr>dim_length = 2, dim_width = 1\<rparr>\<rparr>]"
  define ps where "ps =
         [\<lparr>item_type = ''sofa'', price = 1200, item_style = ''Modern'',
            dimensions = \<lparr>dim_length = 2, dim_width = 1\<rparr>, position = (0 :: rat, 0 :: rat)\<rparr>,
          \<lparr>item_type = ''coffee_table'', price = 240, item_style = ''Modern'',
            dimensions = \<lparr>dim_length = 1, dim_width = 1 / 2\<rparr>, position = (2, 0)\<rparr>]"
  have a: "(4 :: nat) < length st" "st ! 4 = PyList [1, 3]" by (simp_all add: st_def)
  have v: "map (item_value st) [1, 3] = map Some furn"
    unfolding st_def furn_def by (rule example_values)
  have p: "position_furniture furn 3 2 = Inr ps"
    unfolding furn_def ps_def by (rule example_positioned)
  have len: "length st = 5" by (simp add: st_def)
  from position_furniture_store_refines[OF a v, of 3 2] p
  have "\<exists>st'. position_furniture_store st 4 3 2 = Inr (st', length st)
               \<and> map (positioned_value st') (list_at st' (length st)) = map Some ps"
    by blast
  then have "\<exists>st'. position_furniture_store st 4 3 2 = Inr (st', 5)
               \<and> map (positioned_value st') (list_at st' 5) = map Some ps"
    by (simp only: len)
  then show ?thesis unfolding st_def ps_def .
qed

lemma lit_0_9: "fl (9 / 10) = 8106479329266893 / 9007199254740992"
  by code_simp

lemma lit_0_6: "fl (3 / 5) = 5404319552844595 / 9007199254740992"
  by code_simp

lemma sofa_dimensions:
  "get_furniture_dimensions ''sofa''
     = \<lparr>dim_length = 2, dim_width = 8106479329266893 / 9007199254740992\<rparr>"
  by (simp add: get_furniture_dimensions_def dimensions_table_def lit_2 lit_0_9)

lemma coffee_table_dimensions:
  "get_furniture_dimensions ''coffee_table''
     = \<lparr>dim_length = 8106479329266893 / 9007199254740992,
        dim_width = 5404319552844595 / 9007199254740992\<rparr>"
  by (simp add: get_furniture_dimensions_def dimensions_table_def lit_0_6 lit_0_9)

lemma sofa_table_5_4:
  "placements
     [\<lparr>item_type = ''sofa'', price = 1200, item_style = ''Modern'',
        dimensions = \<lparr>dim_length = 2, dim_width = 8106479329266893 / 9007199254740992\<rparr>\<rparr>,
      \<lparr>item_type = ''coffee_table'', price = 240, item_style = ''Modern'',
        dimensions = \<lparr>dim_length = 8106479329266893 / 9007199254740992,
                       dim_width = 5404319552844595 / 9007199254740992\<rparr>\<rparr>] 5 4
   = Inr [(\<lparr>item_type = ''sofa'', price = 1200, item_style = ''Modern'',
        dimensions = \<lparr>dim_length = 2, dim_width = 8106479329266893 / 9007199254740992\<rparr>\<rparr>, (0, 0)),
          (\<lparr>item_type = ''coffee_table'', price = 240, item_style = ''Modern'',
        dimensions = \<lparr>dim_length = 8106479329266893 / 9007199254740992,
                       dim_width = 5404319552844595 / 9007199254740992\<rparr>\<rparr>, (4, 0))]"
  by code_simp

lemma sofa_table_cells:
  "grid_shape 5 4 = (8, 10)"
  "marked_cells (8, 10) (\<lparr>item_type = ''sofa'', price = 1200, item_style = ''Modern'',
        dimensions = \<lparr>dim_length = 2, dim_width = 8106479329266893 / 9007199254740992\<rparr>\<rparr>, (0, 0))
       = [(0, 0), (0, 1), (0, 2), (0, 3)]"
  "marked_cells (8, 10) (\<lparr>item_type = ''coffee_table'', price = 240, item_style = ''Modern'',
        dimensions = \<lparr>dim_length = 8106479329266893 / 9007199254740992,
                       dim_width = 5404319552844595 / 9007199254740992\<rparr>\<rparr>, (4, 0))
       = [(0, 4)]"
  "fmul 4 grid_size = 2" "fmul 0 grid_size = 0"
  by code_simp+

text \<open>
  Scenario 3: a sofa (2.0 by 0.9) and a coffee table (0.9 by 0.6) in a room of 5 by 4.
  The grid has 8 rows and 10 columns; the sofa takes 4 columns and 1 row at (0, 0),
  the coffee table 1 column and 1 row at column 4, which is x = 2.0.
\<close>

theorem scenario_3_sofa_and_coffee_table:
  "position_furniture
     [\<lparr>item_type = ''sofa'', price = 1200, item_style = ''Modern'',
        dimensions = get_furniture_dimensions ''sofa''\<rparr>,
      \<lparr>item_type = ''coffee_table'', price = 240, item_style = ''Modern'',
        dimensions = get_furniture_dimensions ''coffee_table''\<rparr>] 5 4
   = Inr [\<lparr>item_type = ''sofa'', price = 1200, item_style = ''Modern'',
             dimensions = get_furniture_dimensions ''sofa'', position = (0, 0)\<rparr>,
          \<lparr>item_type = ''coffee_table'', price = 240, item_style = ''Modern'',
             dimensions = get_furniture_dimensions ''coffee_table'', position = (2, 0)\<rparr>]
   \<and> grid_shape 5 4 = (8, 10)
   \<and> marked_cells (8, 10) (\<lparr>item_type = ''sofa'', price = 1200, item_style = ''Modern'',
             dimensions = get_furniture_dimensions ''sofa''\<rparr>, (0, 0))
       = [(0, 0), (0, 1), (0, 2), (0, 3)]
   \<and> marked_cells (8, 10) (\<lparr>item_type = ''coffee_table'', price = 240, item_style = ''Modern'',
             dimensions = get_furniture_dimensions ''coffee_table''\<rparr>, (4, 0))
       = [(0, 4)]"
  unfolding sofa_dimensions coffee_table_dimensions
  by (simp add: position_furniture_def sofa_table_5_4 sofa_table_cells positioned_def
      furniture_item.defs)

end
